theory Spec2Isabelle
  imports Complex_Main "HOL-Library.Sublist" "HOL-Library.Multiset"
begin

section \<open>Python values, exceptions and library primitives\<close>

text \<open>
  A raised exception is a value: its class and the text that \<^verbatim>\<open>str(e)\<close> gives.
  A computation that may raise returns \<open>py_error + 'a\<close>, with \<open>Inl\<close> for the exception.
\<close>

datatype exc_class =
  TypeError | ValueError | OverflowError | KeyError | IndexError | AttributeError
  | RuntimeError | FileNotFoundError | OtherException

datatype py_error = Raised exc_class string

fun message :: "py_error \<Rightarrow> string" where
  "message (Raised c msg) = msg"

definition and_then :: "py_error + 'a \<Rightarrow> ('a \<Rightarrow> py_error + 'b) \<Rightarrow> py_error + 'b" where
  "and_then m f = (case m of Inl e \<Rightarrow> Inl e | Inr x \<Rightarrow> f x)"

text \<open>
  The values a Raw Input Record can hold. The record reaches the encoder from a JSON
  body (\<^verbatim>\<open>api.py\<close>), from the form widgets (\<^verbatim>\<open>app.py\<close>) or from the
  background sampler, so a value is \<^verbatim>\<open>None\<close>, a boolean, an integer, a float, a
  string, or a container (a JSON array or object), of which only its \<^verbatim>\<open>str()\<close>
  matters. The type \<open>'f\<close> of floating-point values is left open: the encoder only
  needs its \<open>0.0\<close> and \<open>1.0\<close>.
\<close>

datatype 'f raw_value =
  NoneV | BoolV bool | IntV int | FloatV 'f | StrV string | ContainerV string

text \<open>
  What the interpreter does below the repository's code is not modelled but taken as a
  parameter: the conversions between numbers and text, and \<^verbatim>\<open>str.upper\<close>. Every
  theorem holds for all such primitives.
\<close>

record 'f prims =
  float_of_int :: "int \<Rightarrow> py_error + 'f"
  float_of_str :: "string \<Rightarrow> py_error + 'f"
  str_of_int :: "int \<Rightarrow> string"
  str_of_float :: "'f \<Rightarrow> string"
  str_upper :: "string \<Rightarrow> string"

text \<open>\<^verbatim>\<open>float(v)\<close>: a type error on \<^verbatim>\<open>None\<close> and on containers.\<close>

fun py_float :: "('f::zero_neq_one) prims \<Rightarrow> 'f raw_value \<Rightarrow> py_error + 'f" where
  "py_float P NoneV =
     Inl (Raised TypeError ''float() argument must be a string or a real number, not 'NoneType' '')"
| "py_float P (BoolV b) = Inr (if b then 1 else 0)"
| "py_float P (IntV n) = float_of_int P n"
| "py_float P (FloatV x) = Inr x"
| "py_float P (StrV s) = float_of_str P s"
| "py_float P (ContainerV s) =
     Inl (Raised TypeError ''float() argument must be a string or a real number'')"

text \<open>\<^verbatim>\<open>str(v)\<close>, which never raises.\<close>

fun py_str :: "'f prims \<Rightarrow> 'f raw_value \<Rightarrow> string" where
  "py_str P NoneV = ''None''"
| "py_str P (BoolV b) = (if b then ''True'' else ''False'')"
| "py_str P (IntV n) = str_of_int P n"
| "py_str P (FloatV x) = str_of_float P x"
| "py_str P (StrV s) = s"
| "py_str P (ContainerV s) = s"

type_synonym 'f inputs = "string \<rightharpoonup> 'f raw_value"

section \<open>The model object (\<^verbatim>\<open>predict.py\<close>)\<close>

text \<open>A one-row \<^verbatim>\<open>DataFrame\<close>: the column names and the cells of the row.\<close>

record 'f frame =
  columns :: "string list"
  cells :: "'f list"

text \<open>A \<^verbatim>\<open>DataFrame\<close> of several rows (the background matrix).\<close>

record 'f matrix =
  mcolumns :: "string list"
  mrows :: "'f list list"

text \<open>
  The unpickled classifier, an external object. \<open>feature_names_in\<close> is the attribute
  \<^verbatim>\<open>feature_names_in_\<close> (\<open>None\<close> when absent); \<open>get_booster\<close> is the result of the
  call of that name: it raises, returns \<^verbatim>\<open>None\<close>, or returns a booster, of which only
  \<^verbatim>\<open>feature_names\<close> is read. \<open>model_predict_proba\<close> is
  \<^verbatim>\<open>float(predict_proba(X)[:, 1][0])\<close> and \<open>model_predict\<close> is \<^verbatim>\<open>int(predict(X)[0])\<close>.
\<close>

record 'f artifact =
  feature_names_in :: "string list option"
  get_booster :: "py_error + (string list option) option"
  model_predict_proba :: "'f frame \<Rightarrow> py_error + real"
  model_predict :: "'f frame \<Rightarrow> py_error + int"

record 'f credit_risk_model =
  model :: "'f artifact"
  feature_names :: "string list"

definition MODEL_FILENAME :: string where
  "MODEL_FILENAME = ''xgboost_model.joblib''"

definition default_features :: "string list" where
  "default_features =
    [''person_age'', ''person_income'', ''person_emp_length'', ''loan_amnt'',
     ''loan_int_rate'', ''loan_percent_income'', ''cb_person_cred_hist_length'',
     ''person_home_ownership_MORTGAGE'', ''person_home_ownership_OWN'',
     ''person_home_ownership_RENT'', ''person_home_ownership_OTHER'',
     ''loan_intent_DEBTCONSOLIDATION'', ''loan_intent_EDUCATION'',
     ''loan_intent_HOMEIMPROVEMENT'', ''loan_intent_MEDICAL'', ''loan_intent_PERSONAL'',
     ''loan_intent_VENTURE'',
     ''loan_grade_B'', ''loan_grade_C'', ''loan_grade_D'', ''loan_grade_E'',
     ''loan_grade_F'', ''loan_grade_G'',
     ''cb_person_default_on_file_Y'']"

text \<open>\<^verbatim>\<open>_infer_feature_names\<close>: the sklearn attribute, else the booster's names (any
  exception there is swallowed), else the hardcoded schema.\<close>

definition infer_feature_names :: "'f artifact \<Rightarrow> string list" where
  "infer_feature_names m =
     (case feature_names_in m of
        Some names \<Rightarrow> names
      | None \<Rightarrow>
          (case get_booster m of
             Inr (Some (Some names)) \<Rightarrow> names
           | _ \<Rightarrow> default_features))"

text \<open>The file system and \<^verbatim>\<open>joblib.load\<close>, as the constructor sees them.\<close>

record 'f loader =
  path_exists :: "string \<Rightarrow> bool"
  joblib_load :: "string \<Rightarrow> py_error + 'f artifact"

text \<open>\<^verbatim>\<open>CreditRiskModel.__init__\<close>.\<close>

definition init_model :: "'f loader \<Rightarrow> string \<Rightarrow> py_error + 'f credit_risk_model" where
  "init_model env model_path =
     (if \<not> path_exists env model_path
      then Inl (Raised FileNotFoundError (''Model file not found: '' @ model_path))
      else and_then (joblib_load env model_path)
             (\<lambda>m. Inr \<lparr>model = m, feature_names = infer_feature_names m\<rparr>))"

text \<open>\<^verbatim>\<open>ideal_defaults\<close>.\<close>

definition ideal_defaults :: "('f::field) inputs" where
  "ideal_defaults =
     [''person_age'' \<mapsto> IntV 35,
      ''person_income'' \<mapsto> IntV 85000,
      ''person_emp_length'' \<mapsto> IntV 8,
      ''loan_amnt'' \<mapsto> IntV 10000,
      ''loan_int_rate'' \<mapsto> FloatV 11,
      ''loan_percent_income'' \<mapsto> FloatV (15 / 100),
      ''cb_person_cred_hist_length'' \<mapsto> IntV 10,
      ''person_home_ownership'' \<mapsto> StrV ''OWN'',
      ''loan_intent'' \<mapsto> StrV ''DEBTCONSOLIDATION'',
      ''loan_grade'' \<mapsto> StrV ''A'',
      ''cb_person_default_on_file'' \<mapsto> StrV ''N'']"

subsection \<open>Grouping the indicator columns\<close>

record one_hot_groups =
  person_home_ownership :: "string list"
  loan_intent :: "string list"
  loan_grade :: "string list"
  cb_person_default_on_file :: "string list"

text \<open>One pass of the loop of \<^verbatim>\<open>_one_hot_columns\<close>: the \<^verbatim>\<open>if/elif\<close> chain.\<close>

definition add_column :: "one_hot_groups \<Rightarrow> string \<Rightarrow> one_hot_groups" where
  "add_column groups col =
     (if prefix ''person_home_ownership_'' col
      then groups\<lparr>person_home_ownership := person_home_ownership groups @ [col]\<rparr>
      else if prefix ''loan_intent_'' col
      then groups\<lparr>loan_intent := loan_intent groups @ [col]\<rparr>
      else if prefix ''loan_grade_'' col
      then groups\<lparr>loan_grade := loan_grade groups @ [col]\<rparr>
      else if prefix ''cb_person_default_on_file_'' col
      then groups\<lparr>cb_person_default_on_file := cb_person_default_on_file groups @ [col]\<rparr>
      else groups)"

definition one_hot_columns :: "string list \<Rightarrow> one_hot_groups" where
  "one_hot_columns fnames =
     foldl add_column
       \<lparr>person_home_ownership = [], loan_intent = [], loan_grade = [],
        cb_person_default_on_file = []\<rparr> fnames"

subsection \<open>The Feature Encoder\<close>

definition numeric_keys :: "string list" where
  "numeric_keys =
    [''person_age'', ''person_income'', ''person_emp_length'', ''loan_amnt'',
     ''loan_int_rate'', ''loan_percent_income'', ''cb_person_cred_hist_length'']"

text \<open>\<^verbatim>\<open>float(inputs.get(k, 0))\<close>; \<^verbatim>\<open>float(0)\<close> is \<open>0.0\<close>.\<close>

definition get_float :: "('f::zero_neq_one) prims \<Rightarrow> 'f inputs \<Rightarrow> string \<Rightarrow> py_error + 'f" where
  "get_float P inputs k = (case inputs k of None \<Rightarrow> Inr 0 | Some v \<Rightarrow> py_float P v)"

text \<open>The dictionary literal \<^verbatim>\<open>numeric_map\<close>: its entries are evaluated in
  order, and the first conversion that raises ends the call.\<close>

fun numeric_map ::
  "('f::zero_neq_one) prims \<Rightarrow> 'f inputs \<Rightarrow> string list \<Rightarrow> py_error + (string \<times> 'f) list" where
  "numeric_map P inputs [] = Inr []"
| "numeric_map P inputs (k # ks) =
     (case get_float P inputs k of
        Inl e \<Rightarrow> Inl e
      | Inr v \<Rightarrow>
          (case numeric_map P inputs ks of
             Inl e \<Rightarrow> Inl e
           | Inr kvs \<Rightarrow> Inr ((k, v) # kvs)))"

text \<open>\<^verbatim>\<open>for k, v in numeric_map.items(): if k in data: data[k] = v\<close>.\<close>

definition assign_numeric :: "(string \<rightharpoonup> 'f) \<Rightarrow> (string \<times> 'f) list \<Rightarrow> (string \<rightharpoonup> 'f)" where
  "assign_numeric data kvs =
     foldl (\<lambda>d (k, v). case d k of None \<Rightarrow> d | Some old \<Rightarrow> d(k \<mapsto> v)) data kvs"

text \<open>\<^verbatim>\<open>str(inputs.get(k, "")).upper()\<close>.\<close>

definition cat_value :: "'f prims \<Rightarrow> 'f inputs \<Rightarrow> string \<Rightarrow> string" where
  "cat_value P inputs k =
     str_upper P (case inputs k of None \<Rightarrow> [] | Some v \<Rightarrow> py_str P v)"

text \<open>\<^verbatim>\<open>for col in cols: if test(col): data[col] = 1.0\<close>.\<close>

definition set_matching ::
  "(string \<Rightarrow> bool) \<Rightarrow> (string \<rightharpoonup> ('f::zero_neq_one)) \<Rightarrow> string list \<Rightarrow> (string \<rightharpoonup> 'f)" where
  "set_matching test data cols = foldl (\<lambda>d col. if test col then d(col \<mapsto> 1) else d) data cols"

text \<open>\<^verbatim>\<open>[data[name] for name in self.feature_names]\<close>; a missing key raises.\<close>

fun row_of :: "(string \<rightharpoonup> 'f) \<Rightarrow> string list \<Rightarrow> py_error + 'f list" where
  "row_of data [] = Inr []"
| "row_of data (name # names) =
     (case data name of
        None \<Rightarrow> Inl (Raised KeyError name)
      | Some v \<Rightarrow>
          (case row_of data names of
             Inl e \<Rightarrow> Inl e
           | Inr vs \<Rightarrow> Inr (v # vs)))"

text \<open>\<^verbatim>\<open>build_feature_vector\<close>, on the feature list of \<^verbatim>\<open>self\<close>.\<close>

definition build_feature_vector ::
  "('f::zero_neq_one) prims \<Rightarrow> string list \<Rightarrow> 'f inputs \<Rightarrow> py_error + 'f frame" where
  "build_feature_vector P fnames inputs =
     (let data0 = map_of (map (\<lambda>name. (name, 0)) fnames) in
      case numeric_map P inputs numeric_keys of
        Inl e \<Rightarrow> Inl e
      | Inr nmap \<Rightarrow>
          (let data1 = assign_numeric data0 nmap;
               groups = one_hot_columns fnames;
               pho_val = cat_value P inputs ''person_home_ownership'';
               data2 = set_matching (\<lambda>col. suffix (CHR ''_'' # pho_val) col) data1
                         (person_home_ownership groups);
               li_val = cat_value P inputs ''loan_intent'';
               data3 = set_matching (\<lambda>col. suffix (CHR ''_'' # li_val) col) data2
                         (loan_intent groups);
               lg_val = cat_value P inputs ''loan_grade'';
               data4 = set_matching (\<lambda>col. suffix (CHR ''_'' # lg_val) col) data3
                         (loan_grade groups);
               cb_val = cat_value P inputs ''cb_person_default_on_file'';
               data5 = set_matching (\<lambda>col. suffix ''_Y'' col \<and> cb_val = ''Y'') data4
                         (cb_person_default_on_file groups)
           in case row_of data5 fnames of
                Inl e \<Rightarrow> Inl e
              | Inr vs \<Rightarrow> Inr \<lparr>columns = fnames, cells = vs\<rparr>))"

text \<open>\<^verbatim>\<open>predict_proba\<close>.\<close>

definition predict_proba ::
  "('f::zero_neq_one) prims \<Rightarrow> 'f credit_risk_model \<Rightarrow> 'f inputs \<Rightarrow> py_error + (real \<times> int)" where
  "predict_proba P self inputs =
     and_then (build_feature_vector P (feature_names self) inputs) (\<lambda>X_row.
     and_then (model_predict_proba (model self) X_row) (\<lambda>proba.
     and_then (model_predict (model self) X_row) (\<lambda>pred.
     Inr (proba, pred))))"

text \<open>\<^verbatim>\<open>risk_category\<close>. A probability is a real number; the comparison of a double
  with the literals \<^verbatim>\<open>0.2\<close> and \<^verbatim>\<open>0.5\<close> agrees with the comparison of the real
  values, since no double lies between \<open>1/5\<close> and the double nearest to it.\<close>

definition risk_category :: "real \<Rightarrow> string \<times> string" where
  "risk_category proba =
     (if proba < 2 / 10 then (''Low Risk'', ''#2e7d32'')
      else if proba < 5 / 10 then (''Medium Risk'', ''#f9a825'')
      else (''High Risk'', ''#c62828''))"

subsection \<open>The background sampler\<close>

text \<open>
  numpy's random generator, as the sampler uses it: \<open>default_rng seed\<close> is a fresh
  generator state, and a draw returns its value with the next state. How the generator
  computes is not modelled.
\<close>

record ('g, 'f) generator =
  default_rng :: "nat \<Rightarrow> 'g"
  normal :: "'g \<Rightarrow> 'f \<Rightarrow> 'f \<Rightarrow> 'f \<times> 'g"
  choice :: "'g \<Rightarrow> string list \<Rightarrow> string \<times> 'g"

text \<open>\<^verbatim>\<open>np.clip(x, lo, hi)\<close>.\<close>

definition clip :: "('f::linorder) \<Rightarrow> 'f \<Rightarrow> 'f \<Rightarrow> 'f" where
  "clip x lo hi = min (max x lo) hi"

text \<open>\<^verbatim>\<open>defaults[k]\<close> as the number numpy reads, for the numeric keys of
  \<^verbatim>\<open>ideal_defaults\<close>.\<close>

definition default_number :: "string \<Rightarrow> ('f::field)" where
  "default_number k =
     (case ideal_defaults k of
        Some (IntV n) \<Rightarrow> of_int n
      | Some (FloatV x) \<Rightarrow> x
      | _ \<Rightarrow> 0)"

definition home_opts :: "string list" where
  "home_opts = [''OWN'', ''MORTGAGE'', ''RENT'', ''OTHER'']"

definition intent_opts :: "string list" where
  "intent_opts =
     [''DEBTCONSOLIDATION'', ''HOMEIMPROVEMENT'', ''EDUCATION'', ''MEDICAL'', ''PERSONAL'',
      ''VENTURE'']"

definition grade_opts :: "string list" where
  "grade_opts = [''A'', ''B'', ''C'', ''D'', ''E'', ''F'', ''G'']"

definition cb_opts :: "string list" where
  "cb_opts = [''N'', ''Y'']"

text \<open>One pass of the loop of \<^verbatim>\<open>_make_background\<close>: the dictionary \<^verbatim>\<open>sample\<close>, its
  eleven draws in the order of the source, and the generator state after them.\<close>

definition draw_sample ::
  "('g, 'f::linordered_field) generator \<Rightarrow> 'g \<Rightarrow> 'f inputs \<times> 'g" where
  "draw_sample R g0 =
     (let (age, g1) = normal R g0 (default_number ''person_age'') 8;
          (income, g2) = normal R g1 (default_number ''person_income'') 30000;
          (emp, g3) = normal R g2 (default_number ''person_emp_length'') 3;
          (amnt, g4) = normal R g3 (default_number ''loan_amnt'') 8000;
          (rate, g5) = normal R g4 (default_number ''loan_int_rate'') 5;
          (pct, g6) = normal R g5 (default_number ''loan_percent_income'') (8 / 100);
          (hist, g7) = normal R g6 (default_number ''cb_person_cred_hist_length'') 5;
          (home, g8) = choice R g7 home_opts;
          (intent, g9) = choice R g8 intent_opts;
          (grade, g10) = choice R g9 grade_opts;
          (cb, g11) = choice R g10 cb_opts
      in ([''person_age'' \<mapsto> FloatV (clip age 18 90),
           ''person_income'' \<mapsto> FloatV (clip income 10000 300000),
           ''person_emp_length'' \<mapsto> FloatV (clip emp 0 40),
           ''loan_amnt'' \<mapsto> FloatV (clip amnt 500 100000),
           ''loan_int_rate'' \<mapsto> FloatV (clip rate 1 40),
           ''loan_percent_income'' \<mapsto> FloatV (clip pct 0 1),
           ''cb_person_cred_hist_length'' \<mapsto> FloatV (clip hist 0 40),
           ''person_home_ownership'' \<mapsto> StrV home,
           ''loan_intent'' \<mapsto> StrV intent,
           ''loan_grade'' \<mapsto> StrV grade,
           ''cb_person_default_on_file'' \<mapsto> StrV cb], g11))"

text \<open>The loop \<^verbatim>\<open>for _ in range(n)\<close>, on the number of passes left: each pass draws a
  sample and appends its encoded row.\<close>

fun background_rows ::
  "'f prims \<Rightarrow> ('g, 'f::linordered_field) generator \<Rightarrow> string list \<Rightarrow> nat \<Rightarrow> 'g \<Rightarrow>
   py_error + 'f frame list" where
  "background_rows P R fnames 0 g = Inr []"
| "background_rows P R fnames (Suc n) g =
     (case draw_sample R g of
        (sample, g') \<Rightarrow>
          (case build_feature_vector P fnames sample of
             Inl e \<Rightarrow> Inl e
           | Inr row \<Rightarrow>
               (case background_rows P R fnames n g' of
                  Inl e \<Rightarrow> Inl e
                | Inr rows \<Rightarrow> Inr (row # rows))))"

text \<open>\<^verbatim>\<open>pd.concat(rows, ignore_index=True)\<close> of one-row frames with the same columns; an
  empty list raises.\<close>

definition pd_concat :: "'f frame list \<Rightarrow> py_error + 'f matrix" where
  "pd_concat rows =
     (case rows of
        [] \<Rightarrow> Inl (Raised ValueError ''No objects to concatenate'')
      | r # rs \<Rightarrow> Inr \<lparr>mcolumns = columns r, mrows = map cells rows\<rparr>)"

text \<open>\<^verbatim>\<open>_make_background\<close>. The argument is \<open>None\<close> when the caller omits \<^verbatim>\<open>n\<close>, which
  then is 200; \<^verbatim>\<open>range(n)\<close> is empty for a negative \<^verbatim>\<open>n\<close>. The generator is created
  inside the call, from the seed 42.\<close>

definition make_background ::
  "'f prims \<Rightarrow> ('g, 'f::linordered_field) generator \<Rightarrow> 'f credit_risk_model \<Rightarrow> int option \<Rightarrow>
   py_error + 'f matrix" where
  "make_background P R self n_arg =
     (let n = (case n_arg of None \<Rightarrow> 200 | Some k \<Rightarrow> k);
          rng = default_rng R 42
      in and_then (background_rows P R (feature_names self) (nat n) rng) pd_concat)"

subsection \<open>Attribution\<close>

text \<open>
  What an explainer hands back: \<^verbatim>\<open>shap_values\<close>, a list of arrays (one per class) or a
  single array, each array given by its rows; and the base value
  \<^verbatim>\<open>float(np.ravel(...)[0])\<close>.
\<close>

datatype shap_output = ShapList "real list list list" | ShapArray "real list list"

text \<open>
  The \<^verbatim>\<open>shap\<close> module, external: \<open>tree_explainer\<close> stands for the statements of the
  first \<^verbatim>\<open>try\<close> block after the background is made (constructing the
  \<^verbatim>\<open>TreeExplainer\<close>, \<^verbatim>\<open>shap_values\<close>, the base value), and \<open>generic_explainer\<close> for
  those of the second (\<^verbatim>\<open>shap.Explainer(self.model, X_row)\<close> applied to \<^verbatim>\<open>X_row\<close>).
  Either raises or returns the values and the base value.
\<close>

record 'f shap_module =
  tree_explainer :: "'f artifact \<Rightarrow> 'f matrix \<Rightarrow> 'f frame \<Rightarrow> py_error + (shap_output \<times> real)"
  generic_explainer :: "'f artifact \<Rightarrow> 'f frame \<Rightarrow> py_error + (shap_output \<times> real)"

record shap_row =
  feature :: string
  shap_value :: real
  abs_shap :: real

record shap_meta =
  base_value :: real
  prediction_probability :: real

text \<open>The two nested \<^verbatim>\<open>try\<close> blocks of \<^verbatim>\<open>explain_shap\<close>.\<close>

definition compute_shap ::
  "'f prims \<Rightarrow> ('g, 'f::linordered_field) generator \<Rightarrow> 'f shap_module \<Rightarrow> 'f credit_risk_model \<Rightarrow>
   'f frame \<Rightarrow> py_error + (shap_output \<times> real)" where
  "compute_shap P R lib self X_row =
     (case and_then (make_background P R self (Some 200))
             (\<lambda>background. tree_explainer lib (model self) background X_row) of
        Inr r \<Rightarrow> Inr r
      | Inl e \<Rightarrow>
          (case generic_explainer lib (model self) X_row of
             Inr r \<Rightarrow> Inr r
           | Inl e2 \<Rightarrow>
               Inl (Raised RuntimeError (''Failed to compute SHAP values: '' @ message e2))))"

text \<open>\<^verbatim>\<open>np.array(...).reshape(-1)\<close>, of class 1 when the values are a list.\<close>

definition flatten_shap :: "shap_output \<Rightarrow> py_error + real list" where
  "flatten_shap sv =
     (case sv of
        ShapList arrays \<Rightarrow>
          (if 1 < length arrays then Inr (concat (arrays ! 1))
           else Inl (Raised IndexError ''list index out of range''))
      | ShapArray rows \<Rightarrow> Inr (concat rows))"

text \<open>The frame of features and values with the column \<^verbatim>\<open>abs_shap\<close>; columns of
  different lengths raise.\<close>

definition shap_frame :: "string list \<Rightarrow> real list \<Rightarrow> py_error + shap_row list" where
  "shap_frame fnames shap_arr =
     (if length shap_arr = length fnames
      then Inr (map (\<lambda>(f, v). \<lparr>feature = f, shap_value = v, abs_shap = \<bar>v\<bar>\<rparr>) (zip fnames shap_arr))
      else Inl (Raised ValueError ''All arrays must be of the same length''))"

text \<open>\<^verbatim>\<open>df.sort_values("abs_shap", ascending=False).reset_index(drop=True)\<close>. pandas
  does not fix the order of rows with equal keys; here they keep their order.\<close>

definition sort_values_desc :: "shap_row list \<Rightarrow> shap_row list" where
  "sort_values_desc df = sort_key (\<lambda>r. - abs_shap r) df"

text \<open>\<^verbatim>\<open>explain_shap\<close>; the argument \<open>shap\<close> is the module, \<open>None\<close> when its import
  failed.\<close>

definition explain_shap ::
  "'f prims \<Rightarrow> ('g, 'f::linordered_field) generator \<Rightarrow> 'f shap_module option \<Rightarrow>
   'f credit_risk_model \<Rightarrow> 'f inputs \<Rightarrow> py_error + (shap_row list \<times> shap_meta)" where
  "explain_shap P R shap self inputs =
     (case shap of
        None \<Rightarrow>
          Inl (Raised RuntimeError
                 ''SHAP is not installed. Please install 'shap' to use explanations.'')
      | Some lib \<Rightarrow>
          and_then (build_feature_vector P (feature_names self) inputs) (\<lambda>X_row.
          and_then (compute_shap P R lib self X_row) (\<lambda>(shap_values, base).
          and_then (flatten_shap shap_values) (\<lambda>shap_arr.
          and_then (shap_frame (feature_names self) shap_arr) (\<lambda>df.
          and_then (predict_proba P self inputs) (\<lambda>(proba, pred).
          Inr (sort_values_desc df,
               \<lparr>base_value = base, prediction_probability = proba\<rparr>)))))))"

section \<open>The request interface (\<^verbatim>\<open>api.py\<close>)\<close>

text \<open>
  \<^verbatim>\<open>request.json\<close>: \<^verbatim>\<open>None\<close>, a JSON object, or another JSON value, of which the
  handler sees its truth value and, when it calls \<^verbatim>\<open>.get\<close> on it, its type name.
  A request that Flask cannot read as JSON is answered by Flask when \<^verbatim>\<open>request.json\<close>
  is evaluated, which is after the test of the global \<^verbatim>\<open>model\<close>.
\<close>

datatype 'f json_body = JNull | JObject "'f inputs" | JOther bool string

fun truthy :: "'f json_body \<Rightarrow> bool" where
  "truthy JNull = False"
| "truthy (JObject d) = (d \<noteq> Map.empty)"
| "truthy (JOther t tyname) = t"

record prediction_response =
  probability :: real
  prediction :: int
  risk_label :: string
  risk_color :: string
  shap_values :: "shap_row list"
  response_base_value :: real
  response_prediction_probability :: real

text \<open>The body of a response, and the response with its status code.\<close>

datatype 'f reply =
  ErrorReply string | DefaultsReply "'f inputs" | PredictionReply prediction_response

type_synonym 'f http_response = "'f reply \<times> nat"

text \<open>The module-level \<^verbatim>\<open>try\<close>: the global \<^verbatim>\<open>model\<close> is \<^verbatim>\<open>None\<close> when the
  constructor raises.\<close>

definition load_model :: "'f loader \<Rightarrow> 'f credit_risk_model option" where
  "load_model env =
     (case init_model env MODEL_FILENAME of Inl e \<Rightarrow> None | Inr m \<Rightarrow> Some m)"

text \<open>\<^verbatim>\<open>get_defaults\<close>.\<close>

definition get_defaults :: "('f::field) credit_risk_model option \<Rightarrow> 'f http_response" where
  "get_defaults model_opt =
     (case model_opt of
        None \<Rightarrow> (ErrorReply ''Model not loaded'', 500)
      | Some m \<Rightarrow> (DefaultsReply ideal_defaults, 200))"

text \<open>The text of the \<^verbatim>\<open>AttributeError\<close> for \<^verbatim>\<open>.get\<close> on a value that has none
  (\<open>CHR 0x27\<close> is the single quote).\<close>

definition no_attribute_get :: "string \<Rightarrow> string" where
  "no_attribute_get tyname =
     CHR 0x27 # tyname @ CHR 0x27 # '' object has no attribute '' @ CHR 0x27 # ''get'' @ [CHR 0x27]"

text \<open>The \<^verbatim>\<open>try\<close> block of \<^verbatim>\<open>predict\<close>; a body that is no object has no \<^verbatim>\<open>.get\<close>.\<close>

definition predict_body ::
  "'f prims \<Rightarrow> ('g, 'f::linordered_field) generator \<Rightarrow> 'f shap_module option \<Rightarrow>
   'f credit_risk_model \<Rightarrow> 'f json_body \<Rightarrow> py_error + prediction_response" where
  "predict_body P R shap m body =
     (case body of
        JObject data \<Rightarrow>
          and_then (predict_proba P m data) (\<lambda>(proba, pred).
          case risk_category proba of (label, color) \<Rightarrow>
          and_then (explain_shap P R shap m data) (\<lambda>(shap_df, meta).
          Inr \<lparr>probability = proba, prediction = pred, risk_label = label,
               risk_color = color, shap_values = take 20 shap_df,
               response_base_value = base_value meta,
               response_prediction_probability = prediction_probability meta\<rparr>))
      | JNull \<Rightarrow> Inl (Raised AttributeError (no_attribute_get ''NoneType''))
      | JOther t tyname \<Rightarrow> Inl (Raised AttributeError (no_attribute_get tyname)))"

text \<open>\<^verbatim>\<open>predict\<close>.\<close>

definition predict ::
  "'f prims \<Rightarrow> ('g, 'f::linordered_field) generator \<Rightarrow> 'f shap_module option \<Rightarrow>
   'f credit_risk_model option \<Rightarrow> 'f json_body \<Rightarrow> 'f http_response" where
  "predict P R shap model_opt body =
     (case model_opt of
        None \<Rightarrow> (ErrorReply ''Model not loaded'', 500)
      | Some m \<Rightarrow>
          (if \<not> truthy body then (ErrorReply ''No input data provided'', 400)
           else (case predict_body P R shap m body of
                   Inl e \<Rightarrow> (ErrorReply (message e), 500)
                 | Inr response \<Rightarrow> (PredictionReply response, 200))))"

section \<open>The form handler (\<^verbatim>\<open>app.py\<close>)\<close>

text \<open>
  What the page shows once the button is pressed: the prediction (probability, class, label,
  color), and below it the explanation, which is the sorted attribution frame with its
  meta data or, when \<^verbatim>\<open>explain_shap\<close> raises, the notice with the error's text. An
  exception of \<^verbatim>\<open>predict_proba\<close> is not caught. The feature-importance chart is left
  out.
\<close>

datatype app_page =
  PageError py_error
  | PageResult real int string string "string + (shap_row list \<times> shap_meta)"

definition app_predict ::
  "'f prims \<Rightarrow> ('g, 'f::linordered_field) generator \<Rightarrow> 'f shap_module option \<Rightarrow>
   'f credit_risk_model \<Rightarrow> 'f inputs \<Rightarrow> app_page" where
  "app_predict P R shap m inputs =
     (case predict_proba P m inputs of
        Inl e \<Rightarrow> PageError e
      | Inr (proba, pred) \<Rightarrow>
          (case risk_category proba of
             (label, color) \<Rightarrow>
               PageResult proba pred label color
                 (case explain_shap P R shap m inputs of
                    Inl e \<Rightarrow> Inl (''SHAP explanation not available: '' @ message e)
                  | Inr r \<Rightarrow> Inr r)))"

section \<open>Vocabulary of the properties\<close>

text \<open>The order of the three tiers: Low Risk, then Medium Risk, then High Risk.\<close>

definition tier_rank :: "string \<Rightarrow> nat" where
  "tier_rank label =
     (if label = ''Low Risk'' then 0 else if label = ''Medium Risk'' then 1 else 2)"

text \<open>The four categorical groups, with the prefix that \<^verbatim>\<open>_one_hot_columns\<close> tests
  and the attribute of the Raw Input Record that selects within the group.\<close>

datatype cat_group = HomeOwnership | LoanIntent | LoanGrade | DefaultOnFile

fun group_prefix :: "cat_group \<Rightarrow> string" where
  "group_prefix HomeOwnership = ''person_home_ownership_''"
| "group_prefix LoanIntent = ''loan_intent_''"
| "group_prefix LoanGrade = ''loan_grade_''"
| "group_prefix DefaultOnFile = ''cb_person_default_on_file_''"

fun group_key :: "cat_group \<Rightarrow> string" where
  "group_key HomeOwnership = ''person_home_ownership''"
| "group_key LoanIntent = ''loan_intent''"
| "group_key LoanGrade = ''loan_grade''"
| "group_key DefaultOnFile = ''cb_person_default_on_file''"

fun group_columns :: "one_hot_groups \<Rightarrow> cat_group \<Rightarrow> string list" where
  "group_columns groups HomeOwnership = person_home_ownership groups"
| "group_columns groups LoanIntent = loan_intent groups"
| "group_columns groups LoanGrade = loan_grade groups"
| "group_columns groups DefaultOnFile = cb_person_default_on_file groups"

text \<open>The indicator columns of a group: the list \<^verbatim>\<open>groups[key]\<close>.\<close>

definition indicator_columns :: "string list \<Rightarrow> cat_group \<Rightarrow> string list" where
  "indicator_columns fnames g = group_columns (one_hot_columns fnames) g"

text \<open>The test under which \<^verbatim>\<open>build_feature_vector\<close> sets a column of the group to
  \<open>1.0\<close>: \<^verbatim>\<open>col.endswith(f"_{val}")\<close>, and for the prior-default group
  \<^verbatim>\<open>col.endswith("_Y") and cb_val == "Y"\<close>.\<close>

fun col_selected :: "'f prims \<Rightarrow> 'f inputs \<Rightarrow> cat_group \<Rightarrow> string \<Rightarrow> bool" where
  "col_selected P inputs DefaultOnFile col =
     (suffix ''_Y'' col \<and> cat_value P inputs ''cb_person_default_on_file'' = ''Y'')"
| "col_selected P inputs g col = suffix (CHR ''_'' # cat_value P inputs (group_key g)) col"

text \<open>The number of cells of the row that stand in an indicator column of the group
  and hold \<open>1.0\<close>.\<close>

definition ones_in_group :: "string list \<Rightarrow> cat_group \<Rightarrow> ('f::zero_neq_one) frame \<Rightarrow> nat" where
  "ones_in_group fnames g df =
     length (filter (\<lambda>(c, x). c \<in> set (indicator_columns fnames g) \<and> x = 1)
               (zip (columns df) (cells df)))"

text \<open>Two column names end alike from an underscore on: the longest tail they share
  holds an underscore, so that some \<^verbatim>\<open>"_" + value\<close> is a suffix of both.\<close>

definition ends_alike :: "string \<Rightarrow> string \<Rightarrow> bool" where
  "ends_alike c1 c2 = (CHR ''_'' \<in> set (longest_common_prefix (rev c1) (rev c2)))"

text \<open>A feature list laid out as one-hot encoding writes it: no name twice, and no two
  indicator columns of one group that end alike from an underscore on.\<close>

definition one_hot_layout :: "string list \<Rightarrow> bool" where
  "one_hot_layout fnames =
     (distinct fnames \<and>
      (\<forall>g \<in> {HomeOwnership, LoanIntent, LoanGrade, DefaultOnFile}.
         \<forall>c1 \<in> set (indicator_columns fnames g). \<forall>c2 \<in> set (indicator_columns fnames g).
           c1 \<noteq> c2 \<longrightarrow> \<not> ends_alike c1 c2))"

text \<open>The dictionary \<^verbatim>\<open>data\<close> of \<^verbatim>\<open>build_feature_vector\<close> after its four loops, given
  the numeric map: the value of \<open>data5\<close> there.\<close>

definition encoded_data ::
  "('f::zero_neq_one) prims \<Rightarrow> string list \<Rightarrow> 'f inputs \<Rightarrow> (string \<times> 'f) list \<Rightarrow> (string \<rightharpoonup> 'f)" where
  "encoded_data P fnames inputs nmap =
     set_matching
       (\<lambda>col. suffix ''_Y'' col \<and> cat_value P inputs ''cb_person_default_on_file'' = ''Y'')
       (set_matching (\<lambda>col. suffix (CHR ''_'' # cat_value P inputs ''loan_grade'') col)
          (set_matching (\<lambda>col. suffix (CHR ''_'' # cat_value P inputs ''loan_intent'') col)
             (set_matching
                (\<lambda>col. suffix (CHR ''_'' # cat_value P inputs ''person_home_ownership'') col)
                (assign_numeric (map_of (map (\<lambda>name. (name, 0)) fnames)) nmap)
                (person_home_ownership (one_hot_columns fnames)))
             (loan_intent (one_hot_columns fnames)))
          (loan_grade (one_hot_columns fnames)))
       (cb_person_default_on_file (one_hot_columns fnames))"

text \<open>The attributes of the Raw Input Record that select indicator columns.\<close>

definition categorical_keys :: "string list" where
  "categorical_keys =
    [''person_home_ownership'', ''loan_intent'', ''loan_grade'', ''cb_person_default_on_file'']"

subsection \<open>The passes of the background sampler\<close>

text \<open>The generator state at the start of pass \<open>i\<close> of the loop of \<^verbatim>\<open>_make_background\<close>, when
  the loop starts in state \<open>g\<close>: each pass leaves the state after its eleven draws.\<close>

fun sample_state :: "('g, 'f::linordered_field) generator \<Rightarrow> 'g \<Rightarrow> nat \<Rightarrow> 'g" where
  "sample_state R g 0 = g"
| "sample_state R g (Suc i) = sample_state R (snd (draw_sample R g)) i"

text \<open>The numeric draws of one pass, as the source writes them: the attribute, the standard
  deviation of its normal draw (the mean is the attribute's entry of \<^verbatim>\<open>ideal_defaults\<close>), and
  the two bounds of \<^verbatim>\<open>np.clip\<close>.\<close>

definition numeric_draws :: "(string \<times> ('f::linordered_field) \<times> 'f \<times> 'f) list" where
  "numeric_draws =
     [(''person_age'', 8, 18, 90),
      (''person_income'', 30000, 10000, 300000),
      (''person_emp_length'', 3, 0, 40),
      (''loan_amnt'', 8000, 500, 100000),
      (''loan_int_rate'', 5, 1, 40),
      (''loan_percent_income'', 8 / 100, 0, 1),
      (''cb_person_cred_hist_length'', 5, 0, 40)]"

text \<open>The categorical draws of one pass: the attribute and the list \<^verbatim>\<open>rng.choice\<close> picks
  from.\<close>

definition categorical_draws :: "(string \<times> string list) list" where
  "categorical_draws =
     [(''person_home_ownership'', home_opts),
      (''loan_intent'', intent_opts),
      (''loan_grade'', grade_opts),
      (''cb_person_default_on_file'', cb_opts)]"

text \<open>A record is a drawn sample of the generator library \<open>R\<close> when it has exactly the eleven
  attributes, each numeric one a float that is a normal draw of \<open>R\<close> around the ideal default,
  clipped and hence inside its bounds, and each categorical one a string chosen by \<open>R\<close> from
  the attribute's list.\<close>

definition drawn_sample :: "('g, 'f::linordered_field) generator \<Rightarrow> 'f inputs \<Rightarrow> bool" where
  "drawn_sample R s =
     (dom s = set numeric_keys \<union> set categorical_keys
      \<and> (\<forall>(k, sd, lo, hi) \<in> set numeric_draws.
            \<exists>g x. s k = Some (FloatV x) \<and> x = clip (fst (normal R g (default_number k) sd)) lo hi
                 \<and> lo \<le> x \<and> x \<le> hi)
      \<and> (\<forall>(k, opts) \<in> set categorical_draws. \<exists>g. s k = Some (StrV (fst (choice R g opts)))))"

subsection \<open>An interpretation of the primitives, for the examples\<close>

text \<open>
  The examples below run the encoder on concrete records. There floats are read as
  real numbers, an integer converts to the float of the same value (exact for the
  integers of the examples, which lie below \<open>2 ^ 53\<close>), integers print in decimal,
  a float prints its integral part followed by \<^verbatim>\<open>.0\<close> (as Python prints an integral
  float), \<^verbatim>\<open>upper\<close> maps the ASCII letters, and the strings are category labels, which
  \<^verbatim>\<open>float()\<close> rejects with a \<^verbatim>\<open>ValueError\<close>.
\<close>

fun str_of_nat :: "nat \<Rightarrow> string" where
  "str_of_nat n =
     (if n < 10 then [''0123456789'' ! n]
      else str_of_nat (n div 10) @ [''0123456789'' ! (n mod 10)])"

definition str_of_int_dec :: "int \<Rightarrow> string" where
  "str_of_int_dec n = (if n < 0 then CHR ''-'' # str_of_nat (nat (- n)) else str_of_nat (nat n))"

definition upper_char :: "char \<Rightarrow> char" where
  "upper_char c =
     (case map_of (zip ''abcdefghijklmnopqrstuvwxyz'' ''ABCDEFGHIJKLMNOPQRSTUVWXYZ'') c of
        Some u \<Rightarrow> u
      | None \<Rightarrow> c)"

definition example_prims :: "real prims" where
  "example_prims =
     \<lparr>float_of_int = (\<lambda>n. Inr (of_int n)),
      float_of_str =
        (\<lambda>s. Inl (Raised ValueError
                   (''could not convert string to float: '' @ CHR 0x27 # s @ [CHR 0x27]))),
      str_of_int = str_of_int_dec,
      str_of_float = (\<lambda>x. str_of_int_dec \<lfloor>x\<rfloor> @ ''.0''),
      str_upper = map upper_char\<rparr>"

definition example_inputs :: "real inputs" where
  "example_inputs =
     [''person_age'' \<mapsto> IntV 40,
      ''person_income'' \<mapsto> IntV 50000,
      ''loan_amnt'' \<mapsto> FloatV 2500,
      ''person_home_ownership'' \<mapsto> StrV ''rent'',
      ''loan_intent'' \<mapsto> StrV ''MEDICAL'',
      ''loan_grade'' \<mapsto> StrV ''b'',
      ''cb_person_default_on_file'' \<mapsto> StrV ''Y'',
      ''comment'' \<mapsto> StrV ''urgent'']"

text \<open>A stand-in generator: a normal draw returns the mean, a choice takes the options
  in turn. And a stand-in classifier, whose booster has no feature names (so the
  hardcoded schema is used) and predicts the probability 0.1 and the class 0.\<close>

definition example_rng :: "(nat, real) generator" where
  "example_rng =
     \<lparr>default_rng = (\<lambda>seed. seed),
      normal = (\<lambda>g mu sigma. (mu, Suc g)),
      choice = (\<lambda>g opts. (opts ! (g mod length opts), Suc g))\<rparr>"

definition example_artifact :: "real artifact" where
  "example_artifact =
     \<lparr>feature_names_in = None,
      get_booster = Inr (Some None),
      model_predict_proba = (\<lambda>X. Inr (1 / 10)),
      model_predict = (\<lambda>X. Inr 0)\<rparr>"

definition example_model :: "real credit_risk_model" where
  "example_model =
     \<lparr>model = example_artifact, feature_names = infer_feature_names example_artifact\<rparr>"

text \<open>A file system without the model file.\<close>

definition missing_file :: "real loader" where
  "missing_file = \<lparr>path_exists = (\<lambda>p. False), joblib_load = (\<lambda>p. Inr example_artifact)\<rparr>"

text \<open>Two stand-ins for the \<^verbatim>\<open>shap\<close> module: one whose explainers both raise, and one
  whose tree explainer returns 24 values of alternating sign and growing magnitude.\<close>

definition failing_shap :: "real shap_module" where
  "failing_shap =
     \<lparr>tree_explainer = (\<lambda>m bg X. Inl (Raised OtherException ''tree explainer failed'')),
      generic_explainer = (\<lambda>m X. Inl (Raised OtherException ''explainer failed''))\<rparr>"

definition example_shap :: "real shap_module" where
  "example_shap =
     \<lparr>tree_explainer =
        (\<lambda>m bg X. Inr (ShapArray [map (\<lambda>i. (- 1) ^ i * real i / 100) [1..<25]], 1 / 4)),
      generic_explainer = (\<lambda>m X. Inl (Raised OtherException ''explainer failed''))\<rparr>"


text \<open>A classifier that declares two features, and a \<^verbatim>\<open>shap\<close> module whose tree
  explainer returns one value for each.\<close>

definition two_feature_model :: "real credit_risk_model" where
  "two_feature_model =
     \<lparr>model = example_artifact\<lparr>feature_names_in := Some [''person_age'', ''loan_amnt'']\<rparr>,
      feature_names =
        infer_feature_names
          (example_artifact\<lparr>feature_names_in := Some [''person_age'', ''loan_amnt'']\<rparr>)\<rparr>"

definition two_value_shap :: "real shap_module" where
  "two_value_shap =
     \<lparr>tree_explainer = (\<lambda>m bg X. Inr (ShapArray [[1 / 10, - 3 / 10]], 1 / 4)),
      generic_explainer = (\<lambda>m X. Inl (Raised OtherException ''explainer failed''))\<rparr>"

section \<open>Auxiliary facts\<close>

lemma and_then_Inr_iff: "and_then m f = Inr y \<longleftrightarrow> (\<exists>x. m = Inr x \<and> f x = Inr y)"
  by (cases m) (simp_all add: and_then_def)

lemma prefix_exclusive:
  "\<not> prefix p q \<Longrightarrow> \<not> prefix q p \<Longrightarrow> prefix p c \<Longrightarrow> \<not> prefix q c"
  using prefix_same_cases by blast

lemma group_prefixes_exclusive:
  "prefix ''person_home_ownership_'' c \<Longrightarrow> \<not> prefix ''loan_intent_'' c"
  "prefix ''person_home_ownership_'' c \<Longrightarrow> \<not> prefix ''loan_grade_'' c"
  "prefix ''person_home_ownership_'' c \<Longrightarrow> \<not> prefix ''cb_person_default_on_file_'' c"
  "prefix ''loan_intent_'' c \<Longrightarrow> \<not> prefix ''loan_grade_'' c"
  "prefix ''loan_intent_'' c \<Longrightarrow> \<not> prefix ''cb_person_default_on_file_'' c"
  "prefix ''loan_grade_'' c \<Longrightarrow> \<not> prefix ''cb_person_default_on_file_'' c"
  by (erule prefix_exclusive [rotated 2]; simp)+

lemma add_column_fields:
  "person_home_ownership (add_column G c) =
     person_home_ownership G @ (if prefix ''person_home_ownership_'' c then [c] else [])"
  "loan_intent (add_column G c) = loan_intent G @ (if prefix ''loan_intent_'' c then [c] else [])"
  "loan_grade (add_column G c) = loan_grade G @ (if prefix ''loan_grade_'' c then [c] else [])"
  "cb_person_default_on_file (add_column G c) =
     cb_person_default_on_file G @ (if prefix ''cb_person_default_on_file_'' c then [c] else [])"
  using group_prefixes_exclusive [of c]
  by (simp_all add: add_column_def)

lemma foldl_add_column:
  "person_home_ownership (foldl add_column G cs) =
     person_home_ownership G @ filter (prefix ''person_home_ownership_'') cs"
  "loan_intent (foldl add_column G cs) = loan_intent G @ filter (prefix ''loan_intent_'') cs"
  "loan_grade (foldl add_column G cs) = loan_grade G @ filter (prefix ''loan_grade_'') cs"
  "cb_person_default_on_file (foldl add_column G cs) =
       cb_person_default_on_file G @ filter (prefix ''cb_person_default_on_file_'') cs"
  by (induction cs rule: rev_induct) (simp_all add: add_column_fields)

lemma indicator_columns_filter:
  "indicator_columns fnames g = filter (prefix (group_prefix g)) fnames"
  by (cases g) (simp_all add: indicator_columns_def one_hot_columns_def foldl_add_column)

lemma set_matching_apply:
  "set_matching t d cols k = (if k \<in> set cols \<and> t k then Some 1 else d k)"
  unfolding set_matching_def
  by (induction cols arbitrary: d) auto

lemma assign_numeric_other:
  "k \<notin> fst ` set kvs \<Longrightarrow> assign_numeric d kvs k = d k"
  unfolding assign_numeric_def
  by (induction kvs arbitrary: d) (auto split: option.splits)

lemma assign_step_None:
  "((case d k' of None \<Rightarrow> d | Some old \<Rightarrow> d(k' \<mapsto> v)) k = None) = (d k = None)"
  by (cases "d k'") simp_all

lemma assign_numeric_None:
  "(assign_numeric d kvs k = None) = (d k = None)"
  unfolding assign_numeric_def
proof (induction kvs arbitrary: d)
  case Nil
  show ?case by simp
next
  case (Cons kv kvs)
  obtain k' v where kv: "kv = (k', v)" by (cases kv)
  show ?case
    by (simp add: kv Cons.IH assign_step_None)
qed

lemma numeric_map_keys:
  "numeric_map P inputs ks = Inr kvs \<Longrightarrow> map fst kvs = ks"
  by (induction ks arbitrary: kvs) (auto split: sum.splits)

lemma numeric_map_Inr_iff:
  "(\<exists>kvs. numeric_map P inputs ks = Inr kvs) = (\<forall>k \<in> set ks. \<exists>x. get_float P inputs k = Inr x)"
  by (induction ks) (auto split: sum.splits)

lemma data0_apply:
  "map_of (map (\<lambda>name. (name, v)) fnames) k = (if k \<in> set fnames then Some v else None)"
  by (induction fnames) auto

lemma row_of_Inr:
  "row_of d names = Inr vs \<Longrightarrow> vs = map (\<lambda>n. the (d n)) names \<and> (\<forall>n \<in> set names. d n \<noteq> None)"
  by (induction names arbitrary: vs) (auto split: option.splits sum.splits)

lemma row_of_total:
  "\<forall>n \<in> set names. d n \<noteq> None \<Longrightarrow> row_of d names = Inr (map (\<lambda>n. the (d n)) names)"
  by (induction names) (auto split: option.splits sum.splits)

lemma build_feature_vector_unfold:
  "build_feature_vector P fnames inputs =
     (case numeric_map P inputs numeric_keys of
        Inl e \<Rightarrow> Inl e
      | Inr nmap \<Rightarrow>
          (case row_of (encoded_data P fnames inputs nmap) fnames of
             Inl e \<Rightarrow> Inl e
           | Inr vs \<Rightarrow> Inr \<lparr>columns = fnames, cells = vs\<rparr>))"
  by (cases "numeric_map P inputs numeric_keys")
    (simp_all add: build_feature_vector_def encoded_data_def Let_def)

lemma set_matching_defined:
  "d k \<noteq> None \<Longrightarrow> set_matching t d cols k \<noteq> None"
  by (simp add: set_matching_apply)

lemma encoded_data_defined:
  "\<forall>c \<in> set fnames. encoded_data P fnames inputs nmap c \<noteq> None"
proof
  fix c assume "c \<in> set fnames"
  then have "assign_numeric (map_of (map (\<lambda>name. (name, 0)) fnames)) nmap c \<noteq> None"
    by (simp add: assign_numeric_None data0_apply)
  then show "encoded_data P fnames inputs nmap c \<noteq> None"
    unfolding encoded_data_def by (intro set_matching_defined)
qed

lemma build_feature_vector_Inr:
  "numeric_map P inputs numeric_keys = Inr nmap \<Longrightarrow>
   build_feature_vector P fnames inputs =
     Inr \<lparr>columns = fnames,
          cells = map (\<lambda>n. the (encoded_data P fnames inputs nmap n)) fnames\<rparr>"
  by (simp add: build_feature_vector_unfold row_of_total encoded_data_defined)

lemma build_feature_vector_Inr_iff:
  "(build_feature_vector P fnames inputs = Inr df) =
   (\<exists>nmap. numeric_map P inputs numeric_keys = Inr nmap \<and>
      df = \<lparr>columns = fnames,
             cells = map (\<lambda>n. the (encoded_data P fnames inputs nmap n)) fnames\<rparr>)"
proof (cases "numeric_map P inputs numeric_keys")
  case (Inl e)
  then show ?thesis by (simp add: build_feature_vector_unfold)
next
  case (Inr nmap)
  then show ?thesis by (auto simp: build_feature_vector_Inr)
qed

lemma example_floats:
  "\<forall>k \<in> set numeric_keys. \<exists>x. get_float example_prims example_inputs k = Inr x"
  by (simp add: numeric_keys_def get_float_def example_inputs_def example_prims_def)

lemma numeric_map_cong:
  "\<forall>k \<in> set ks. inputs1 k = inputs2 k \<Longrightarrow> numeric_map P inputs1 ks = numeric_map P inputs2 ks"
proof (induction ks)
  case Nil
  show ?case by simp
next
  case (Cons k ks)
  have a: "get_float P inputs1 k = get_float P inputs2 k"
    using Cons.prems by (simp add: get_float_def)
  have b: "numeric_map P inputs1 ks = numeric_map P inputs2 ks"
    using Cons by simp
  show ?case
    unfolding numeric_map.simps a b by (rule refl)
qed

lemma suffixes_end_alike:
  assumes "suffix (CHR ''_'' # v) c1" and "suffix (CHR ''_'' # v) c2"
  shows "ends_alike c1 c2"
proof -
  from assms obtain z1 z2 where "c1 = z1 @ CHR ''_'' # v" and "c2 = z2 @ CHR ''_'' # v"
    by (auto simp: suffix_def)
  then have "prefix (rev v @ ''_'') (rev c1)" and "prefix (rev v @ ''_'') (rev c2)"
    by (simp_all add: prefix_def)
  then have "prefix (rev v @ ''_'') (longest_common_prefix (rev c1) (rev c2))"
    by (rule longest_common_prefix_max_prefix)
  then have "set (rev v @ ''_'') \<subseteq> set (longest_common_prefix (rev c1) (rev c2))"
    by (rule set_mono_prefix)
  then show ?thesis by (simp add: ends_alike_def)
qed

lemma col_selected_suffix:
  "col_selected P inputs g c \<Longrightarrow>
   \<exists>v. suffix (CHR ''_'' # v) c \<and> (\<forall>c'. col_selected P inputs g c' \<longleftrightarrow> suffix (CHR ''_'' # v) c')"
  by (cases g) auto

lemma length_filter_unique:
  "distinct xs \<Longrightarrow> (\<forall>a \<in> set xs. \<forall>b \<in> set xs. Q a \<and> Q b \<longrightarrow> a = b) \<Longrightarrow>
   length (filter Q xs) = (if \<exists>a \<in> set xs. Q a then 1 else 0)"
proof (induction xs)
  case Nil
  show ?case by simp
next
  case (Cons a xs)
  show ?case
  proof (cases "Q a")
    case True
    have "\<forall>b \<in> set xs. \<not> Q b"
      using Cons.prems True by auto
    then have "filter Q xs = []" by (simp add: filter_empty_conv)
    then show ?thesis using True by simp
  next
    case False
    then show ?thesis using Cons by simp
  qed
qed

lemma length_filter_zip_map:
  "length (filter (\<lambda>(c, x). Q c x) (zip xs (map h xs))) = length (filter (\<lambda>c. Q c (h c)) xs)"
  by (induction xs) simp_all

lemma set_zip_map:
  "set (zip xs (map h xs)) = (\<lambda>c. (c, h c)) ` set xs"
  by (induction xs) auto

lemma prefix_not_numeric:
  "prefix (group_prefix g) c \<Longrightarrow> c \<notin> set numeric_keys"
  by (cases g) (auto simp: numeric_keys_def)


lemma encoded_indicator:
  assumes "c \<in> set fnames" and "prefix (group_prefix g) c" and "map fst nmap = numeric_keys"
  shows "encoded_data P fnames inputs nmap c = Some (if col_selected P inputs g c then 1 else 0)"
proof -
  have "c \<notin> fst ` set nmap"
    using prefix_not_numeric [OF assms(2)] assms(3) by (metis set_map)
  then have base: "assign_numeric (map_of (map (\<lambda>name. (name, 0)) fnames)) nmap c = Some 0"
    using assms(1) by (simp add: assign_numeric_other data0_apply)
  show ?thesis
    using assms(1,2) group_prefixes_exclusive [of c]
    by (cases g)
      (auto simp: encoded_data_def set_matching_apply one_hot_columns_def foldl_add_column base)
qed

lemma default_features_layout: "one_hot_layout default_features"
  by (simp add: one_hot_layout_def indicator_columns_filter ends_alike_def default_features_def)

lemma example_row:
  "\<exists>df. build_feature_vector example_prims default_features example_inputs = Inr df"
  using example_floats
  by (simp add: build_feature_vector_Inr_iff numeric_map_Inr_iff [symmetric])

lemma example_upper: "str_upper example_prims ''rent'' = ''RENT''"
  by (simp add: example_prims_def upper_char_def)

lemma example_selected:
  "\<exists>c \<in> set (indicator_columns default_features HomeOwnership).
     col_selected example_prims example_inputs HomeOwnership c"
  by (simp add: indicator_columns_filter default_features_def cat_value_def example_inputs_def
      example_upper suffix_to_prefix)

lemma sample_floats:
  "\<forall>k \<in> set numeric_keys. \<exists>x. get_float P (fst (draw_sample R g)) k = Inr x"
  by (simp add: draw_sample_def numeric_keys_def get_float_def split_beta Let_def)

lemma sample_row:
  "\<exists>row. build_feature_vector P fnames (fst (draw_sample R g)) = Inr row
         \<and> columns row = fnames \<and> length (cells row) = length fnames"
proof -
  from sample_floats [of P R g]
  obtain nmap where "numeric_map P (fst (draw_sample R g)) numeric_keys = Inr nmap"
    unfolding numeric_map_Inr_iff [symmetric] ..
  then show ?thesis
    by (simp add: build_feature_vector_Inr)
qed

lemma background_rows_total:
  "\<exists>rows. background_rows P R fnames n g = Inr rows \<and> length rows = n
     \<and> (\<forall>r \<in> set rows. columns r = fnames \<and> length (cells r) = length fnames)"
proof (induction n arbitrary: g)
  case 0
  show ?case by simp
next
  case (Suc n)
  obtain sample g' where d: "draw_sample R g = (sample, g')"
    by (cases "draw_sample R g")
  from sample_row [of P fnames R g] d obtain row where
    row: "build_feature_vector P fnames sample = Inr row"
      "columns row = fnames" "length (cells row) = length fnames"
    by auto
  from Suc.IH [of g'] obtain rows where
    rows: "background_rows P R fnames n g' = Inr rows" "length rows = n"
      "\<forall>r \<in> set rows. columns r = fnames \<and> length (cells r) = length fnames"
    by blast
  show ?case
    using d row rows by simp
qed

lemma make_background_total:
  assumes "0 < n"
  shows "\<exists>bg. make_background P R m (Some n) = Inr bg \<and> length (mrows bg) = nat n
     \<and> mcolumns bg = feature_names m
     \<and> (\<forall>r \<in> set (mrows bg). length r = length (feature_names m))"
proof -
  from background_rows_total [of P R "feature_names m" "nat n" "default_rng R 42"]
  obtain rows where
    rows: "background_rows P R (feature_names m) (nat n) (default_rng R 42) = Inr rows"
      "length rows = nat n"
      "\<forall>r \<in> set rows. columns r = feature_names m \<and> length (cells r) = length (feature_names m)"
    by blast
  from rows(2) assms obtain r rs where rr: "rows = r # rs"
    by (cases rows) auto
  show ?thesis
    using rows rr by (simp add: make_background_def and_then_def pd_concat_def)
qed

lemma make_background_default: "make_background P R m None = make_background P R m (Some 200)"
  by (simp add: make_background_def)

lemma draw_sample_cong:
  "normal R1 = normal R2 \<Longrightarrow> choice R1 = choice R2 \<Longrightarrow> draw_sample R1 g = draw_sample R2 g"
  by (simp add: draw_sample_def)

lemma background_rows_cong:
  assumes "normal R1 = normal R2" and "choice R1 = choice R2"
  shows "background_rows P R1 fnames n g = background_rows P R2 fnames n g"
proof (induction n arbitrary: g)
  case 0
  show ?case by simp
next
  case (Suc n)
  show ?case
    unfolding background_rows.simps draw_sample_cong [OF assms] Suc.IH by (rule refl)
qed

lemma background_rows_nth:
  assumes "background_rows P R fnames n g = Inr rows" and "i < n"
  shows "build_feature_vector P fnames (fst (draw_sample R (sample_state R g i))) = Inr (rows ! i)"
  using assms
proof (induction n arbitrary: g rows i)
  case 0
  then show ?case by simp
next
  case (Suc n)
  obtain sample g' where d: "draw_sample R g = (sample, g')"
    by (cases "draw_sample R g")
  from Suc.prems(1) d obtain row rest where
    row: "build_feature_vector P fnames sample = Inr row"
    and rest: "background_rows P R fnames n g' = Inr rest"
    and rows: "rows = row # rest"
    by (auto split: sum.splits)
  show ?case
  proof (cases i)
    case 0
    then show ?thesis using d row rows by simp
  next
    case (Suc j)
    with Suc.prems(2) have "j < n" by simp
    from Suc.IH [OF rest this] show ?thesis
      using Suc d rows by simp
  qed
qed

lemma clip_bounds: "lo \<le> hi \<Longrightarrow> lo \<le> clip x lo hi \<and> clip x lo hi \<le> hi"
  by (simp add: clip_def)

lemma draw_sample_dom:
  "dom (fst (draw_sample R g)) = set numeric_keys \<union> set categorical_keys"
  by (auto simp add: draw_sample_def split_beta Let_def numeric_keys_def categorical_keys_def)

lemma draw_sample_numeric:
  "\<forall>(k, sd, lo, hi) \<in> set numeric_draws.
     \<exists>g' x. fst (draw_sample R g) k = Some (FloatV x)
          \<and> x = clip (fst (normal R g' (default_number k) sd)) lo hi \<and> lo \<le> x \<and> x \<le> hi"
  by (simp add: draw_sample_def split_beta Let_def numeric_draws_def clip_bounds) blast

lemma draw_sample_categorical:
  "\<forall>(k, opts) \<in> set categorical_draws.
     \<exists>g'. fst (draw_sample R g) k = Some (StrV (fst (choice R g' opts)))"
  by (simp add: draw_sample_def split_beta Let_def categorical_draws_def) blast

lemma draw_sample_drawn: "drawn_sample R (fst (draw_sample R g))"
  unfolding drawn_sample_def
  using draw_sample_dom [of R g] draw_sample_numeric [of R g] draw_sample_categorical [of R g]
  by blast

lemma make_background_rows:
  assumes "0 < n"
  shows "\<exists>bg. make_background P R m (Some n) = Inr bg
     \<and> mcolumns bg = feature_names m \<and> length (mrows bg) = nat n
     \<and> (\<forall>i < nat n.
          build_feature_vector P (feature_names m)
            (fst (draw_sample R (sample_state R (default_rng R 42) i))) =
          Inr \<lparr>columns = feature_names m, cells = mrows bg ! i\<rparr>)"
proof -
  from background_rows_total [of P R "feature_names m" "nat n" "default_rng R 42"]
  obtain rows where
    rows: "background_rows P R (feature_names m) (nat n) (default_rng R 42) = Inr rows"
      "length rows = nat n"
      "\<forall>r \<in> set rows. columns r = feature_names m \<and> length (cells r) = length (feature_names m)"
    by blast
  from rows(2) assms obtain r rs where rr: "rows = r # rs"
    by (cases rows) auto
  let ?bg = "\<lparr>mcolumns = feature_names m, mrows = map cells rows\<rparr>"
  have bg: "make_background P R m (Some n) = Inr ?bg"
    using rows rr by (simp add: make_background_def and_then_def pd_concat_def)
  have "build_feature_vector P (feature_names m)
            (fst (draw_sample R (sample_state R (default_rng R 42) i))) =
          Inr \<lparr>columns = feature_names m, cells = mrows ?bg ! i\<rparr>" if i: "i < nat n" for i
  proof -
    from i rows(2) have "rows ! i \<in> set rows" by simp
    with rows(3) have "columns (rows ! i) = feature_names m" by blast
    then have "rows ! i = \<lparr>columns = feature_names m, cells = cells (rows ! i)\<rparr>"
      by (cases "rows ! i") simp
    moreover have "mrows ?bg ! i = cells (rows ! i)"
      using i rows(2) by simp
    ultimately show ?thesis
      using background_rows_nth [OF rows(1) i] by simp
  qed
  with bg rows(2) show ?thesis by simp
qed

lemma compute_shap_both_fail:
  assumes "\<forall>bg. \<exists>e. tree_explainer lib (model m) bg X = Inl e"
    and "generic_explainer lib (model m) X = Inl e2"
  shows "compute_shap P R lib m X =
           Inl (Raised RuntimeError (''Failed to compute SHAP values: '' @ message e2))"
proof -
  have "\<exists>e. and_then (make_background P R m (Some 200))
             (\<lambda>background. tree_explainer lib (model m) background X) = Inl e"
    using assms(1) by (cases "make_background P R m (Some 200)") (simp_all add: and_then_def)
  then show ?thesis
    using assms(2) by (auto simp: compute_shap_def)
qed

lemma compute_shap_fallback:
  assumes "\<forall>bg. \<exists>e. tree_explainer lib (model m) bg X = Inl e"
  shows "compute_shap P R lib m X =
           (case generic_explainer lib (model m) X of
              Inr r \<Rightarrow> Inr r
            | Inl e2 \<Rightarrow> Inl (Raised RuntimeError (''Failed to compute SHAP values: '' @ message e2)))"
proof -
  have "\<exists>e. and_then (make_background P R m (Some 200))
             (\<lambda>background. tree_explainer lib (model m) background X) = Inl e"
    using assms(1) by (cases "make_background P R m (Some 200)") (simp_all add: and_then_def)
  then show ?thesis
    by (auto simp: compute_shap_def)
qed

lemma sort_values_desc_sorted:
  "sorted_wrt (\<lambda>a b. abs_shap b \<le> abs_shap a) (sort_values_desc df)"
proof -
  have "sorted (map (\<lambda>r. - abs_shap r) (sort_values_desc df))"
    unfolding sort_values_desc_def by (rule sorted_sort_key)
  then show ?thesis by (simp add: sorted_map)
qed

lemma sort_values_desc_same_rows:
  "set (sort_values_desc df) = set df \<and> length (sort_values_desc df) = length df"
  by (simp add: sort_values_desc_def)

lemma shap_frame_Inr:
  assumes "shap_frame fnames arr = Inr fr"
  shows "map feature fr = fnames \<and> map shap_value fr = arr
       \<and> (\<forall>r \<in> set fr. abs_shap r = \<bar>shap_value r\<bar>)"
proof -
  from assms have len: "length arr = length fnames"
    and fr: "fr = map (\<lambda>(f, v). \<lparr>feature = f, shap_value = v, abs_shap = \<bar>v\<bar>\<rparr>) (zip fnames arr)"
    by (auto simp: shap_frame_def split: if_splits)
  have "map feature fr = map fst (zip fnames arr)"
    unfolding fr by (simp add: split_beta)
  moreover have "map shap_value fr = map snd (zip fnames arr)"
    unfolding fr by (simp add: split_beta)
  moreover have "\<forall>r \<in> set fr. abs_shap r = \<bar>shap_value r\<bar>"
    unfolding fr by auto
  ultimately show ?thesis using len by simp
qed

lemma explain_shap_Inr:
  assumes "explain_shap P R shap m inputs = Inr (df, meta)"
  shows "\<exists>lib X out arr fr proba pred.
           shap = Some lib
         \<and> build_feature_vector P (feature_names m) inputs = Inr X
         \<and> compute_shap P R lib m X = Inr (out, base_value meta)
         \<and> flatten_shap out = Inr arr
         \<and> shap_frame (feature_names m) arr = Inr fr \<and> df = sort_values_desc fr
         \<and> predict_proba P m inputs = Inr (proba, pred)
         \<and> prediction_probability meta = proba"
proof (cases shap)
  case None
  with assms show ?thesis by (simp add: explain_shap_def)
next
  case (Some lib)
  with assms show ?thesis
    by (auto simp: explain_shap_def and_then_Inr_iff split: prod.splits)
qed

lemma map_pair_zip: "map (\<lambda>x. (f x, g x)) xs = zip (map f xs) (map g xs)"
  by (induction xs) simp_all

lemma sort_values_desc_pairs:
  assumes "shap_frame fnames arr = Inr fr"
  shows "mset (map (\<lambda>x. (feature x, shap_value x)) (sort_values_desc fr)) = mset (zip fnames arr)"
proof -
  have "mset (map (\<lambda>x. (feature x, shap_value x)) (sort_values_desc fr)) =
        mset (map (\<lambda>x. (feature x, shap_value x)) fr)"
    by (simp add: sort_values_desc_def)
  also have "map (\<lambda>x. (feature x, shap_value x)) fr = zip fnames arr"
    using shap_frame_Inr [OF assms] by (simp add: map_pair_zip)
  finally show ?thesis .
qed

lemma compute_shap_tree:
  assumes "\<forall>bg. tree_explainer lib (model m) bg X = Inr res"
  shows "compute_shap P R lib m X = Inr res"
proof -
  from make_background_total [of 200 P R m] obtain bg where
    "make_background P R m (Some 200) = Inr bg" by auto
  then show ?thesis
    using assms by (simp add: compute_shap_def and_then_def)
qed

lemma example_model_features: "feature_names example_model = default_features"
  by (simp add: example_model_def infer_feature_names_def example_artifact_def)

lemma example_predict_proba:
  "predict_proba example_prims example_model example_inputs = Inr (1 / 10, 0)"
proof -
  from example_row obtain X where
    "build_feature_vector example_prims default_features example_inputs = Inr X" ..
  then show ?thesis
    by (simp add: predict_proba_def example_model_features and_then_def)
      (simp add: example_model_def example_artifact_def)
qed

lemma example_inputs_nonempty: "example_inputs \<noteq> Map.empty"
proof
  assume a: "example_inputs = Map.empty"
  have "example_inputs ''person_age'' = Some (IntV 40)"
    by (simp add: example_inputs_def)
  then show False unfolding a by simp
qed

lemma example_explain:
  "\<exists>df meta. explain_shap example_prims example_rng (Some example_shap) example_model
      example_inputs = Inr (df, meta) \<and> length df = 24"
proof -
  from example_row obtain X where
    X: "build_feature_vector example_prims default_features example_inputs = Inr X" ..
  let ?arr = "map (\<lambda>i. (- 1) ^ i * real i / 100) [1..<25]"
  have c: "compute_shap example_prims example_rng example_shap example_model X =
             Inr (ShapArray [?arr], 1 / 4)"
    by (rule compute_shap_tree) (simp add: example_shap_def)
  have len: "length ?arr = length default_features"
    by (simp add: default_features_def)
  then obtain fr where fr: "shap_frame default_features ?arr = Inr fr" "length fr = 24"
    by (simp add: shap_frame_def default_features_def)
  show ?thesis
    using X c fr example_predict_proba sort_values_desc_same_rows [of fr]
    by (simp add: explain_shap_def example_model_features and_then_def flatten_shap_def)
qed


section \<open>Risk classification\<close>

text \<open>
  Claim C3. For every probability \<open>p\<close>, \<^verbatim>\<open>risk_category\<close> labels it Low Risk when
  \<open>p < 0.20\<close>, Medium Risk when \<open>0.20 \<le> p < 0.50\<close> and High Risk when \<open>p \<ge> 0.50\<close>;
  the boundaries are exact: 0.1999 is Low, 0.2 and 0.4999 are Medium, 0.5 is High.
\<close>

theorem risk_category_thresholds:
  "(p < 2 / 10 \<longrightarrow> fst (risk_category p) = ''Low Risk'')
   \<and> (2 / 10 \<le> p \<and> p < 5 / 10 \<longrightarrow> fst (risk_category p) = ''Medium Risk'')
   \<and> (5 / 10 \<le> p \<longrightarrow> fst (risk_category p) = ''High Risk'')
   \<and> fst (risk_category (1999 / 10000)) = ''Low Risk''
   \<and> fst (risk_category (2 / 10)) = ''Medium Risk''
   \<and> fst (risk_category (4999 / 10000)) = ''Medium Risk''
   \<and> fst (risk_category (5 / 10)) = ''High Risk''"
  by (simp add: risk_category_def)

theorem risk_category_thresholds_witness:
  "fst (risk_category (1 / 10)) = ''Low Risk''
   \<and> fst (risk_category (3 / 10)) = ''Medium Risk''
   \<and> fst (risk_category (9 / 10)) = ''High Risk''"
  using risk_category_thresholds [of "1 / 10"] risk_category_thresholds [of "3 / 10"]
    risk_category_thresholds [of "9 / 10"]
  by simp

text \<open>
  Claim C8. Risk classification is monotonic: for probabilities \<open>p1 \<le> p2\<close> the tier of
  \<open>p1\<close> is at most the tier of \<open>p2\<close> in the order Low, Medium, High.
\<close>

theorem risk_category_monotone:
  "p1 \<le> p2 \<Longrightarrow>
   tier_rank (fst (risk_category p1)) \<le> tier_rank (fst (risk_category p2))"
  by (simp add: risk_category_def tier_rank_def)

theorem risk_category_monotone_witness:
  "(1 / 10 :: real) \<le> 3 / 10
   \<and> tier_rank (fst (risk_category (1 / 10))) \<le> tier_rank (fst (risk_category (3 / 10)))
   \<and> tier_rank (fst (risk_category (1 / 10))) = 0
   \<and> tier_rank (fst (risk_category (3 / 10))) = 1"
proof -
  have le: "(1 / 10 :: real) \<le> 3 / 10" by simp
  have "tier_rank (fst (risk_category (1 / 10))) = 0"
    by (simp add: risk_category_def tier_rank_def)
  moreover have "tier_rank (fst (risk_category (3 / 10))) = 1"
    by (simp add: risk_category_def tier_rank_def)
  ultimately show ?thesis
    using le risk_category_monotone [OF le] by simp
qed

section \<open>The Feature Encoder\<close>

text \<open>
  Claim C1, as amended. \<^verbatim>\<open>build_feature_vector\<close> returns a row exactly when each of the
  seven numeric attributes is absent or accepted by \<^verbatim>\<open>float()\<close>; the row it returns
  has the columns of the model's feature list, in that order, and as many cells. On any
  other record the conversion raises and no row is returned.
\<close>

theorem build_feature_vector_shape:
  "((\<exists>df. build_feature_vector P fnames inputs = Inr df) \<longleftrightarrow>
      (\<forall>k \<in> set numeric_keys. \<exists>x. get_float P inputs k = Inr x))
   \<and> (\<forall>df. build_feature_vector P fnames inputs = Inr df \<longrightarrow>
         columns df = fnames \<and> length (cells df) = length fnames)"
proof -
  have "(\<exists>df. build_feature_vector P fnames inputs = Inr df) =
        (\<exists>nmap. numeric_map P inputs numeric_keys = Inr nmap)"
    by (auto simp: build_feature_vector_Inr_iff)
  then show ?thesis
    by (auto simp: numeric_map_Inr_iff build_feature_vector_Inr_iff)
qed

theorem build_feature_vector_shape_witness:
  "\<exists>df. build_feature_vector example_prims default_features example_inputs = Inr df
        \<and> columns df = default_features \<and> length (cells df) = 24"
proof -
  have n: "length default_features = 24"
    by (simp add: default_features_def)
  from build_feature_vector_shape [of example_prims default_features example_inputs]
    example_floats n
  show ?thesis by metis
qed

text \<open>
  Claim C1 as stated fails: on the record \<^verbatim>\<open>{"person_age": None}\<close> (a JSON
  \<^verbatim>\<open>null\<close>) the encoder raises a \<^verbatim>\<open>TypeError\<close> and returns no row.
\<close>

theorem build_feature_vector_raises:
  "build_feature_vector example_prims default_features [''person_age'' \<mapsto> NoneV] =
     Inl (Raised TypeError
            ''float() argument must be a string or a real number, not 'NoneType' '')"
  by (simp add: build_feature_vector_unfold numeric_keys_def get_float_def)

text \<open>
  Claim C9. Two Raw Input Records that agree on the seven numeric and the four
  categorical attributes are encoded alike, whatever other keys they hold; and the
  columns of the row are the feature list, so no other key is copied into it.
\<close>

theorem build_feature_vector_known_keys_only:
  assumes "\<forall>k \<in> set (numeric_keys @ categorical_keys). inputs1 k = inputs2 k"
  shows "build_feature_vector P fnames inputs1 = build_feature_vector P fnames inputs2
         \<and> (\<forall>df. build_feature_vector P fnames inputs1 = Inr df \<longrightarrow> columns df = fnames)"
proof -
  have num: "numeric_map P inputs1 numeric_keys = numeric_map P inputs2 numeric_keys"
    using assms by (intro numeric_map_cong) simp
  have cat: "\<forall>k \<in> set categorical_keys. cat_value P inputs1 k = cat_value P inputs2 k"
    using assms by (simp add: cat_value_def)
  have enc: "encoded_data P fnames inputs1 = encoded_data P fnames inputs2"
    using cat by (simp add: encoded_data_def categorical_keys_def fun_eq_iff)
  have "build_feature_vector P fnames inputs1 = build_feature_vector P fnames inputs2"
    unfolding build_feature_vector_unfold num enc by (rule refl)
  then show ?thesis
    by (auto simp: build_feature_vector_Inr_iff)
qed

theorem build_feature_vector_known_keys_only_witness:
  "build_feature_vector example_prims default_features example_inputs =
   build_feature_vector example_prims default_features
     (example_inputs(''comment'' := None, ''session'' \<mapsto> IntV 7))"
proof -
  have "\<forall>k \<in> set (numeric_keys @ categorical_keys).
          example_inputs k = (example_inputs(''comment'' := None, ''session'' \<mapsto> IntV 7)) k"
    by (simp add: numeric_keys_def categorical_keys_def)
  from build_feature_vector_known_keys_only [OF this] show ?thesis by (rule conjunct1)
qed

text \<open>
  Claim C2, as amended. When the model's feature list is laid out as one-hot encoding
  writes it (no name twice, no two indicator columns of a group ending alike from an
  underscore on; the hardcoded schema is such a list), the row that
  \<^verbatim>\<open>build_feature_vector\<close> produces has, in every categorical group, at most one
  indicator column set to \<open>1.0\<close>: exactly one when a column of the group passes the
  encoder's test against the uppercased input value, none otherwise; every indicator
  cell is \<open>1.0\<close> if its column passes the test and \<open>0.0\<close> if not, so with no match
  the whole group is zero.
\<close>

theorem at_most_one_indicator_per_group:
  assumes "one_hot_layout fnames" and "build_feature_vector P fnames inputs = Inr df"
  shows "ones_in_group fnames g df \<le> 1
    \<and> ones_in_group fnames g df =
        (if \<exists>c \<in> set (indicator_columns fnames g). col_selected P inputs g c then 1 else 0)
    \<and> (\<forall>(c, x) \<in> set (zip (columns df) (cells df)).
          c \<in> set (indicator_columns fnames g) \<longrightarrow>
          x = (if col_selected P inputs g c then 1 else 0))"
proof -
  let ?I = "indicator_columns fnames g"
  from assms(2) obtain nmap where nm: "numeric_map P inputs numeric_keys = Inr nmap"
    and df: "df = \<lparr>columns = fnames,
                    cells = map (\<lambda>n. the (encoded_data P fnames inputs nmap n)) fnames\<rparr>"
    by (auto simp: build_feature_vector_Inr_iff)
  let ?h = "\<lambda>n. the (encoded_data P fnames inputs nmap n)"
  have keys: "map fst nmap = numeric_keys"
    using nm by (rule numeric_map_keys)
  have I: "set ?I = {c \<in> set fnames. prefix (group_prefix g) c}"
    by (simp add: indicator_columns_filter)
  have cell: "?h c = (if col_selected P inputs g c then 1 else 0)" if "c \<in> set ?I" for c
    using that encoded_indicator [OF _ _ keys, of c fnames g P inputs] by (simp add: I)
  have one: "(c \<in> set ?I \<and> ?h c = 1) = (c \<in> set ?I \<and> col_selected P inputs g c)" for c
    using cell [of c] by (auto split: if_splits)
  have count: "ones_in_group fnames g df =
      length (filter (\<lambda>c. c \<in> set ?I \<and> col_selected P inputs g c) fnames)"
    unfolding ones_in_group_def df
    by (simp add: length_filter_zip_map one)
  have g: "g \<in> {HomeOwnership, LoanIntent, LoanGrade, DefaultOnFile}"
    by (cases g) simp_all
  have unique: "a = b"
    if a: "a \<in> set ?I" "col_selected P inputs g a" and b: "b \<in> set ?I" "col_selected P inputs g b"
    for a b
  proof (rule ccontr)
    assume ne: "a \<noteq> b"
    from col_selected_suffix [OF a(2)] obtain v where
      v: "suffix (CHR ''_'' # v) a" "\<forall>c'. col_selected P inputs g c' \<longleftrightarrow> suffix (CHR ''_'' # v) c'"
      by blast
    then have vb: "suffix (CHR ''_'' # v) b" using b(2) by simp
    have "ends_alike a b"
      by (rule suffixes_end_alike [OF v(1) vb])
    moreover have "\<not> ends_alike a b"
      using assms(1) g a(1) b(1) ne unfolding one_hot_layout_def by blast
    ultimately show False by simp
  qed
  have "distinct fnames" using assms(1) by (simp add: one_hot_layout_def)
  then have len: "length (filter (\<lambda>c. c \<in> set ?I \<and> col_selected P inputs g c) fnames) =
      (if \<exists>a \<in> set fnames. a \<in> set ?I \<and> col_selected P inputs g a then 1 else 0)"
    by (rule length_filter_unique) (use unique in blast)
  have ex: "(\<exists>a \<in> set fnames. a \<in> set ?I \<and> col_selected P inputs g a) =
            (\<exists>c \<in> set ?I. col_selected P inputs g c)"
    by (auto simp: I)
  have c2: "ones_in_group fnames g df =
      (if \<exists>c \<in> set ?I. col_selected P inputs g c then 1 else 0)"
    unfolding count len ex by (rule refl)
  have c3: "\<forall>(c, x) \<in> set (zip (columns df) (cells df)).
          c \<in> set ?I \<longrightarrow> x = (if col_selected P inputs g c then 1 else 0)"
    unfolding df using cell by (auto simp: set_zip_map)
  from c2 c3 show ?thesis by simp
qed

theorem at_most_one_indicator_per_group_witness:
  "one_hot_layout default_features
   \<and> (\<exists>df. build_feature_vector example_prims default_features example_inputs = Inr df
         \<and> ones_in_group default_features HomeOwnership df = 1)"
proof -
  from example_row obtain df where
    df: "build_feature_vector example_prims default_features example_inputs = Inr df" ..
  from at_most_one_indicator_per_group [OF default_features_layout df, of HomeOwnership]
    example_selected
  have "ones_in_group default_features HomeOwnership df = 1" by simp
  with default_features_layout df show ?thesis by blast
qed

text \<open>
  Claim C2 as stated fails: nothing makes the feature list of the loaded model a
  one-hot layout. A model that declares the columns \<^verbatim>\<open>loan_grade_B\<close> and
  \<^verbatim>\<open>loan_grade_X_B\<close> gets both set to \<open>1.0\<close> by the grade \<^verbatim>\<open>b\<close>, since both names
  end in \<^verbatim>\<open>_B\<close>.
\<close>

theorem two_indicators_of_one_group:
  "infer_feature_names
     (example_artifact\<lparr>feature_names_in := Some [''loan_grade_B'', ''loan_grade_X_B'']\<rparr>) =
     [''loan_grade_B'', ''loan_grade_X_B'']
   \<and> build_feature_vector example_prims [''loan_grade_B'', ''loan_grade_X_B'']
       [''loan_grade'' \<mapsto> StrV ''b''] =
       Inr \<lparr>columns = [''loan_grade_B'', ''loan_grade_X_B''], cells = [1, 1]\<rparr>
   \<and> ones_in_group [''loan_grade_B'', ''loan_grade_X_B''] LoanGrade
       \<lparr>columns = [''loan_grade_B'', ''loan_grade_X_B''], cells = [1, 1 :: real]\<rparr> = 2"
proof -
  have nm: "numeric_map example_prims [''loan_grade'' \<mapsto> StrV ''b''] numeric_keys =
      Inr (map (\<lambda>k. (k, 0)) numeric_keys)"
    by (simp add: numeric_keys_def get_float_def)
  have up: "str_upper example_prims ''b'' = ''B''"
    by (simp add: example_prims_def upper_char_def)
  have "build_feature_vector example_prims [''loan_grade_B'', ''loan_grade_X_B'']
       [''loan_grade'' \<mapsto> StrV ''b''] =
       Inr \<lparr>columns = [''loan_grade_B'', ''loan_grade_X_B''], cells = [1, 1]\<rparr>"
  proof -
    have keys: "map fst (map (\<lambda>k. (k, 0 :: real)) numeric_keys) = numeric_keys"
      by (simp add: comp_def)
    have "encoded_data example_prims [''loan_grade_B'', ''loan_grade_X_B'']
            [''loan_grade'' \<mapsto> StrV ''b''] (map (\<lambda>k. (k, 0)) numeric_keys) c = Some 1"
      if "c \<in> set [''loan_grade_B'', ''loan_grade_X_B'']" for c
      using that
        encoded_indicator [OF that _ keys, of LoanGrade example_prims "[''loan_grade'' \<mapsto> StrV ''b'']"]
      by (auto simp: cat_value_def up suffix_to_prefix)
    then show ?thesis
      unfolding build_feature_vector_Inr [OF nm] by simp
  qed
  moreover have "ones_in_group [''loan_grade_B'', ''loan_grade_X_B''] LoanGrade
       \<lparr>columns = [''loan_grade_B'', ''loan_grade_X_B''], cells = [1, 1 :: real]\<rparr> = 2"
    by (simp add: ones_in_group_def indicator_columns_filter)
  ultimately show ?thesis
    by (simp add: infer_feature_names_def)
qed

section \<open>The background sampler\<close>

text \<open>
  Claim C6. Background sampling is deterministic. The generator is created inside the call,
  from the seed 42, and the call reads nothing of the model but its feature list: two calls
  with the same \<open>n\<close>, on models with the same feature list, in generator libraries that draw
  alike and give the same generator for the seed 42 (whatever they give for other seeds, and
  whatever else differs between the models), return the same matrix, or raise the same
  error. An omitted \<open>n\<close> is 200, and then the matrix has the feature list as its columns and
  200 rows; row \<open>i\<close> is the row the Feature Encoder builds from the sample of pass \<open>i\<close>, which
  is drawn in the state that the passes before it left, starting from the generator of seed
  42, and is a drawn sample: its seven numeric attributes are clipped normal draws inside
  their bounds, its four categorical attributes are choices from their lists.
\<close>

theorem make_background_deterministic:
  assumes "feature_names m1 = feature_names m2"
    and "default_rng R1 42 = default_rng R2 42"
    and "normal R1 = normal R2" and "choice R1 = choice R2"
  shows "make_background P R1 m1 n = make_background P R2 m2 n
       \<and> make_background P R1 m1 None = make_background P R1 m1 (Some 200)
       \<and> (\<exists>bg. make_background P R1 m1 None = Inr bg
              \<and> mcolumns bg = feature_names m1 \<and> length (mrows bg) = 200
              \<and> (\<forall>i < 200. \<exists>s.
                    s = fst (draw_sample R1 (sample_state R1 (default_rng R1 42) i))
                  \<and> drawn_sample R1 s
                  \<and> build_feature_vector P (feature_names m1) s =
                      Inr \<lparr>columns = feature_names m1, cells = mrows bg ! i\<rparr>))"
proof -
  have "make_background P R1 m1 n = make_background P R2 m2 n"
    unfolding make_background_def Let_def assms(1,2) background_rows_cong [OF assms(3,4)]
    by (rule refl)
  moreover have d: "make_background P R1 m1 None = make_background P R1 m1 (Some 200)"
    by (simp add: make_background_def)
  moreover from make_background_rows [of 200 P R1 m1] obtain bg where
    bg: "make_background P R1 m1 (Some 200) = Inr bg" "mcolumns bg = feature_names m1"
      "length (mrows bg) = 200"
      "\<forall>i < 200. build_feature_vector P (feature_names m1)
            (fst (draw_sample R1 (sample_state R1 (default_rng R1 42) i))) =
          Inr \<lparr>columns = feature_names m1, cells = mrows bg ! i\<rparr>"
    by auto
  have "\<exists>bg. make_background P R1 m1 None = Inr bg
              \<and> mcolumns bg = feature_names m1 \<and> length (mrows bg) = 200
              \<and> (\<forall>i < 200. \<exists>s.
                    s = fst (draw_sample R1 (sample_state R1 (default_rng R1 42) i))
                  \<and> drawn_sample R1 s
                  \<and> build_feature_vector P (feature_names m1) s =
                      Inr \<lparr>columns = feature_names m1, cells = mrows bg ! i\<rparr>)"
    using bg draw_sample_drawn [of R1] unfolding d by blast
  ultimately show ?thesis by blast
qed

theorem make_background_deterministic_witness:
  "default_rng (example_rng\<lparr>default_rng := (\<lambda>seed. if seed = 42 then 42 else 0)\<rparr>) 7
     \<noteq> default_rng example_rng 7
   \<and> make_background example_prims example_rng example_model (Some 3) =
     make_background example_prims
       (example_rng\<lparr>default_rng := (\<lambda>seed. if seed = 42 then 42 else 0)\<rparr>)
       (example_model\<lparr>model := example_artifact\<lparr>model_predict := (\<lambda>X. Inr 1)\<rparr>\<rparr>) (Some 3)
   \<and> (\<exists>bg. make_background example_prims example_rng example_model None = Inr bg
         \<and> length (mrows bg) = 200 \<and> mcolumns bg = default_features)"
proof -
  have fn: "feature_names example_model = default_features"
    by (simp add: example_model_def infer_feature_names_def example_artifact_def)
  have a: "feature_names example_model =
        feature_names (example_model\<lparr>model := example_artifact\<lparr>model_predict := (\<lambda>X. Inr 1)\<rparr>\<rparr>)"
    by simp
  have b: "default_rng example_rng 42 =
      default_rng (example_rng\<lparr>default_rng := (\<lambda>seed. if seed = 42 then 42 else 0)\<rparr>) 42"
    by (simp add: example_rng_def)
  have c: "normal example_rng =
      normal (example_rng\<lparr>default_rng := (\<lambda>seed. if seed = 42 then 42 else 0)\<rparr>)"
    "choice example_rng =
      choice (example_rng\<lparr>default_rng := (\<lambda>seed. if seed = 42 then 42 else 0)\<rparr>)"
    by simp_all
  have e: "default_rng (example_rng\<lparr>default_rng := (\<lambda>seed. if seed = 42 then 42 else 0)\<rparr>) 7
     \<noteq> default_rng example_rng 7"
    by (simp add: example_rng_def)
  from make_background_deterministic [OF a b c, of example_prims "Some 3"] e
  show ?thesis unfolding fn by blast
qed

section \<open>The request interface\<close>

text \<open>
  Claim C7. When the model fails to load at startup, \<^verbatim>\<open>/api/defaults\<close> and
  \<^verbatim>\<open>/api/predict\<close> answer every request, whatever its payload, with status 500 and the
  error \<open>Model not loaded\<close>, and attempt no prediction.
\<close>

theorem not_loaded_error:
  assumes "init_model env MODEL_FILENAME = Inl e"
  shows "get_defaults (load_model env) = (ErrorReply ''Model not loaded'', 500)
       \<and> predict P R shap (load_model env) body = (ErrorReply ''Model not loaded'', 500)"
  using assms by (simp add: load_model_def get_defaults_def predict_def)

theorem not_loaded_error_witness:
  "init_model missing_file MODEL_FILENAME =
     Inl (Raised FileNotFoundError ''Model file not found: xgboost_model.joblib'')
   \<and> get_defaults (load_model missing_file) =
       (ErrorReply ''Model not loaded'', 500 :: nat)
   \<and> predict example_prims example_rng None (load_model missing_file) (JObject example_inputs) =
       (ErrorReply ''Model not loaded'', 500)"
proof -
  have i: "init_model missing_file MODEL_FILENAME =
     Inl (Raised FileNotFoundError ''Model file not found: xgboost_model.joblib'')"
    by (simp add: init_model_def missing_file_def MODEL_FILENAME_def)
  from not_loaded_error [OF i, of example_prims example_rng None "JObject example_inputs"] i
  show ?thesis by simp
qed

text \<open>
  Claim C10. With the model loaded, a request to \<^verbatim>\<open>/api/predict\<close> whose body is the
  empty JSON object is rejected with status 400 and \<open>No input data provided\<close>, the very
  response to a missing body (\<^verbatim>\<open>None\<close>), although the encoder returns a row on the
  empty record.
\<close>

theorem empty_object_rejected:
  "predict P R shap (Some m) (JObject Map.empty) = (ErrorReply ''No input data provided'', 400)
   \<and> predict P R shap (Some m) (JObject Map.empty) = predict P R shap (Some m) JNull
   \<and> (\<exists>df. build_feature_vector P (feature_names m) Map.empty = Inr df)"
proof -
  have "\<forall>k \<in> set numeric_keys. \<exists>x. get_float P Map.empty k = Inr x"
    by (simp add: get_float_def)
  then obtain nmap where "numeric_map P Map.empty numeric_keys = Inr nmap"
    unfolding numeric_map_Inr_iff [symmetric] ..
  then have "\<exists>df. build_feature_vector P (feature_names m) Map.empty = Inr df"
    by (simp add: build_feature_vector_Inr)
  then show ?thesis
    by (simp add: predict_def)
qed

section \<open>Attribution\<close>

text \<open>
  Claim C5, as amended. For every non-empty record on which attribution succeeds: the
  records that \<^verbatim>\<open>explain_shap\<close> returns are the explainer's values paired with the
  features (one record for each feature), sorted by descending absolute contribution, and
  the baseline is the explainer's; \<^verbatim>\<open>/api/predict\<close> answers with status 200 and the
  first 20 of the records (at most 20, each at least as large in magnitude as every
  record left out), together with that baseline and the predicted probability, which is
  the probability of the prediction itself.
\<close>

theorem top_attributions_sorted:
  assumes "inputs \<noteq> Map.empty" and "explain_shap P R shap m inputs = Inr (df, meta)"
  shows "\<exists>lib X out arr r.
           shap = Some lib
         \<and> build_feature_vector P (feature_names m) inputs = Inr X
         \<and> compute_shap P R lib m X = Inr (out, base_value meta)
         \<and> flatten_shap out = Inr arr
         \<and> mset (map (\<lambda>x. (feature x, shap_value x)) df) = mset (zip (feature_names m) arr)
         \<and> length df = length (feature_names m)
         \<and> sorted_wrt (\<lambda>a b. \<bar>shap_value b\<bar> \<le> \<bar>shap_value a\<bar>) df
         \<and> predict P R shap (Some m) (JObject inputs) = (PredictionReply r, 200)
         \<and> shap_values r = take 20 df \<and> length (shap_values r) \<le> 20
         \<and> (\<forall>a \<in> set (take 20 df). \<forall>b \<in> set (drop 20 df). \<bar>shap_value b\<bar> \<le> \<bar>shap_value a\<bar>)
         \<and> response_base_value r = base_value meta
         \<and> response_prediction_probability r = prediction_probability meta
         \<and> predict_proba P m inputs = Inr (prediction_probability meta, prediction r)
         \<and> probability r = prediction_probability meta"
proof -
  from explain_shap_Inr [OF assms(2)] obtain lib X out arr fr proba pred where
    lib: "shap = Some lib"
    and X: "build_feature_vector P (feature_names m) inputs = Inr X"
    and c: "compute_shap P R lib m X = Inr (out, base_value meta)"
    and fl: "flatten_shap out = Inr arr"
    and fr: "shap_frame (feature_names m) arr = Inr fr" and df: "df = sort_values_desc fr"
    and pp: "predict_proba P m inputs = Inr (proba, pred)"
    and meta: "prediction_probability meta = proba"
    by blast
  define r where "r = \<lparr>probability = proba, prediction = pred,
      risk_label = fst (risk_category proba), risk_color = snd (risk_category proba),
      shap_values = take 20 df, response_base_value = base_value meta,
      response_prediction_probability = prediction_probability meta\<rparr>"
  have reply: "predict P R shap (Some m) (JObject inputs) = (PredictionReply r, 200)"
    using assms pp by (simp add: predict_def predict_body_def and_then_def r_def split_beta)
  have pairs: "mset (map (\<lambda>x. (feature x, shap_value x)) df) = mset (zip (feature_names m) arr)"
    unfolding df by (rule sort_values_desc_pairs [OF fr])
  have len: "length df = length (feature_names m)"
    using shap_frame_Inr [OF fr] sort_values_desc_same_rows [of fr] df
    by (metis length_map)
  have abs: "\<forall>x \<in> set df. abs_shap x = \<bar>shap_value x\<bar>"
    using shap_frame_Inr [OF fr] sort_values_desc_same_rows [of fr] df by simp
  have "sorted_wrt (\<lambda>a b. abs_shap b \<le> abs_shap a) df"
    unfolding df by (rule sort_values_desc_sorted)
  then have sorted: "sorted_wrt (\<lambda>a b. \<bar>shap_value b\<bar> \<le> \<bar>shap_value a\<bar>) df"
    by (rule sorted_wrt_mono_rel [rotated]) (use abs in auto)
  have "sorted_wrt (\<lambda>a b. \<bar>shap_value b\<bar> \<le> \<bar>shap_value a\<bar>) (take 20 df @ drop 20 df)"
    using sorted by simp
  then have split: "\<forall>a \<in> set (take 20 df). \<forall>b \<in> set (drop 20 df). \<bar>shap_value b\<bar> \<le> \<bar>shap_value a\<bar>"
    unfolding sorted_wrt_append by blast
  have fields: "shap_values r = take 20 df" "response_base_value r = base_value meta"
    "response_prediction_probability r = prediction_probability meta"
    "prediction r = pred" "probability r = proba"
    by (simp_all add: r_def)
  show ?thesis
    using lib X c fl pairs len sorted reply split pp meta fields
    by (intro exI [of _ lib] exI [of _ X] exI [of _ out] exI [of _ arr] exI [of _ r]) simp
qed

theorem top_attributions_sorted_witness:
  "example_inputs \<noteq> Map.empty
   \<and> (\<exists>r. predict example_prims example_rng (Some example_shap) (Some example_model)
          (JObject example_inputs) = (PredictionReply r, 200)
       \<and> length (shap_values r) = 20
       \<and> sorted_wrt (\<lambda>a b. \<bar>shap_value b\<bar> \<le> \<bar>shap_value a\<bar>) (shap_values r)
       \<and> probability r = 1 / 10)"
proof -
  from example_explain obtain df meta where
    ex: "explain_shap example_prims example_rng (Some example_shap) example_model
           example_inputs = Inr (df, meta)"
    by blast
  from top_attributions_sorted [OF example_inputs_nonempty ex] obtain r where
    p: "predict example_prims example_rng (Some example_shap) (Some example_model)
          (JObject example_inputs) = (PredictionReply r, 200)"
    and len: "length df = length (feature_names example_model)"
    and sorted: "sorted_wrt (\<lambda>a b. \<bar>shap_value b\<bar> \<le> \<bar>shap_value a\<bar>) df"
    and r: "shap_values r = take 20 df"
    and pp: "predict_proba example_prims example_model example_inputs =
               Inr (prediction_probability meta, prediction r)"
    and pr: "probability r = prediction_probability meta"
    by blast
  have "length df = 24"
    using len by (simp add: example_model_features default_features_def)
  then have "length (shap_values r) = 20"
    and "sorted_wrt (\<lambda>a b. \<bar>shap_value b\<bar> \<le> \<bar>shap_value a\<bar>) (shap_values r)"
    using sorted r by (simp_all add: sorted_wrt_take)
  moreover have "probability r = 1 / 10"
    using pp pr example_predict_proba by simp
  ultimately show ?thesis
    using p example_inputs_nonempty by blast
qed

text \<open>
  Claim C5 as stated fails on the empty record: attribution succeeds on it, and
  \<^verbatim>\<open>/api/predict\<close> rejects it with status 400, returning neither records nor baseline
  nor probability.
\<close>

theorem attribution_without_response:
  "explain_shap example_prims example_rng (Some two_value_shap) two_feature_model Map.empty =
     Inr ([\<lparr>feature = ''loan_amnt'', shap_value = - 3 / 10, abs_shap = 3 / 10\<rparr>,
           \<lparr>feature = ''person_age'', shap_value = 1 / 10, abs_shap = 1 / 10\<rparr>],
          \<lparr>base_value = 1 / 4, prediction_probability = 1 / 10\<rparr>)
   \<and> predict example_prims example_rng (Some two_value_shap) (Some two_feature_model)
       (JObject Map.empty) = (ErrorReply ''No input data provided'', 400)"
proof -
  have fn: "feature_names two_feature_model = [''person_age'', ''loan_amnt'']"
    by (simp add: two_feature_model_def infer_feature_names_def)
  have "\<forall>k \<in> set numeric_keys. \<exists>x. get_float example_prims Map.empty k = Inr x"
    by (simp add: get_float_def)
  then obtain nmap where "numeric_map example_prims Map.empty numeric_keys = Inr nmap"
    unfolding numeric_map_Inr_iff [symmetric] ..
  then obtain X where
    X: "build_feature_vector example_prims [''person_age'', ''loan_amnt''] Map.empty = Inr X"
    by (simp add: build_feature_vector_Inr)
  have pp: "predict_proba example_prims two_feature_model Map.empty = Inr (1 / 10, 0)"
    using X by (simp add: predict_proba_def fn and_then_def)
      (simp add: two_feature_model_def example_artifact_def)
  have c: "compute_shap example_prims example_rng two_value_shap two_feature_model X =
             Inr (ShapArray [[1 / 10, - 3 / 10]], 1 / 4)"
    by (rule compute_shap_tree) (simp add: two_value_shap_def)
  have "explain_shap example_prims example_rng (Some two_value_shap) two_feature_model
          Map.empty =
     Inr ([\<lparr>feature = ''loan_amnt'', shap_value = - 3 / 10, abs_shap = 3 / 10\<rparr>,
           \<lparr>feature = ''person_age'', shap_value = 1 / 10, abs_shap = 1 / 10\<rparr>],
          \<lparr>base_value = 1 / 4, prediction_probability = 1 / 10\<rparr>)"
    using X c pp
    by (simp add: explain_shap_def fn and_then_def flatten_shap_def shap_frame_def
        sort_values_desc_def)
  then show ?thesis
    by (simp add: predict_def)
qed

text \<open>
  Claim C4, evaluated. The base prediction succeeds (probability 0.1, class 0) and both
  explainers raise. \<^verbatim>\<open>explain_shap\<close> has tried the generic explainer after the tree
  explainer (the message is the second one's), and then raises; the single \<^verbatim>\<open>try\<close> of
  \<^verbatim>\<open>predict\<close> in \<^verbatim>\<open>api.py\<close> turns that into a response of status 500 that holds the
  error text only, without probability, class or tier. On the same input the handler of
  \<^verbatim>\<open>app.py\<close> keeps the prediction and reports the explanation as not available.
\<close>

theorem api_loses_prediction_when_attribution_fails:
  "predict_proba example_prims example_model example_inputs = Inr (1 / 10, 0)
   \<and> predict example_prims example_rng (Some failing_shap) (Some example_model)
       (JObject example_inputs) =
       (ErrorReply ''Failed to compute SHAP values: explainer failed'', 500)
   \<and> app_predict example_prims example_rng (Some failing_shap) example_model example_inputs =
       PageResult (1 / 10) 0 ''Low Risk'' ''#2e7d32''
         (Inl ''SHAP explanation not available: Failed to compute SHAP values: explainer failed'')"
proof -
  from example_row obtain X where
    X: "build_feature_vector example_prims default_features example_inputs = Inr X" ..
  have c: "compute_shap example_prims example_rng failing_shap example_model X =
      Inl (Raised RuntimeError (''Failed to compute SHAP values: '' @
             message (Raised OtherException ''explainer failed'')))"
    by (rule compute_shap_both_fail) (simp_all add: failing_shap_def)
  have e: "explain_shap example_prims example_rng (Some failing_shap) example_model
      example_inputs = Inl (Raised RuntimeError ''Failed to compute SHAP values: explainer failed'')"
    using X c by (simp add: explain_shap_def example_model_features and_then_def)
  show ?thesis
    using e example_predict_proba example_inputs_nonempty
    by (simp add: predict_def predict_body_def app_predict_def and_then_def risk_category_def)
qed


end
